theory Spec2Isabelle
  imports Main "HOL-Library.AList"
begin

section \<open>Strings and the JavaScript primitives used by \<^verbatim>\<open>curriculum/getChallenges.js\<close>\<close>

text \<open>
  JavaScript strings are modelled as \<^typ>\<open>string\<close>: a character stands for the UTF-16 code
  unit of the same number, so the strings of the model are the strings whose code units
  are below 256 (ASCII and Latin-1).
\<close>

text \<open>\<^verbatim>\<open>String.prototype.split(sep)\<close> for a separator of one character: the
  pieces between the occurrences of the separator, never an empty list.\<close>

function split :: "char \<Rightarrow> string \<Rightarrow> string list" where
  "split sep s =
     (case dropWhile (\<lambda>c. c \<noteq> sep) s of
        [] \<Rightarrow> [takeWhile (\<lambda>c. c \<noteq> sep) s]
      | _ # rest \<Rightarrow> takeWhile (\<lambda>c. c \<noteq> sep) s # split sep rest)"
  by pat_completeness auto
termination
proof (relation "measure (\<lambda>(sep, s). length s)")
  show "wf (measure (\<lambda>(sep, s). length s))" by simp
next
  fix sep :: char and s :: string and x rest
  assume "dropWhile (\<lambda>c. c \<noteq> sep) s = x # rest"
  then have "length (x # rest) \<le> length s"
    by (metis length_dropWhile_le)
  then show "((sep, rest), (sep, s)) \<in> measure (\<lambda>(sep, s). length s)" by simp
qed

declare split.simps [simp del]

text \<open>\<^verbatim>\<open>Array.prototype.join(sep)\<close> on an array of strings.\<close>

fun join :: "string \<Rightarrow> string list \<Rightarrow> string" where
  "join sep [] = []"
| "join sep [x] = x"
| "join sep (x # y # ys) = x @ sep @ join sep (y # ys)"

text \<open>
  The white space that \<^verbatim>\<open>parseInt\<close> skips, \<^verbatim>\<open>StrWhiteSpaceChar\<close>: among the code
  units below 256 these are tab, line feed, vertical tab, form feed, carriage return,
  space and the no-break space U+00A0. The decimal digits are the ASCII digits.
\<close>

definition isWhiteSpace :: "char \<Rightarrow> bool" where
  "isWhiteSpace c =
     (c \<in> set [CHR 0x09, CHR 0x0A, CHR 0x0B, CHR 0x0C, CHR 0x0D, CHR '' '', CHR 0xA0])"

definition isDigit :: "char \<Rightarrow> bool" where
  "isDigit c = (c \<in> set ''0123456789'')"

definition digitValue :: "char \<Rightarrow> nat" where
  "digitValue c = of_char c - 48"

definition digitsValue :: "string \<Rightarrow> nat" where
  "digitsValue ds = foldl (\<lambda>acc c. acc * 10 + digitValue c) 0 ds"

text \<open>
  A JavaScript number is a double. The numbers that \<^verbatim>\<open>parseInt\<close> can return are
  \<^verbatim>\<open>NaN\<close>, the doubles that are integers (\<open>Finite\<close>; every finite double from \<open>2^53\<close> on
  is one), the negative zero and the two infinities.
\<close>

datatype jsNumber = NaN | Finite int | NegativeZero | Infinity | NegativeInfinity

text \<open>
  The double nearest to a natural number, ties to even, as a natural number: a number
  of at most 53 bits is kept; of a longer one the leading 53 bits are kept and rounded
  by the bits dropped. The result can be \<open>2^1024\<close>, which no double holds.
\<close>

fun bitLength :: "nat \<Rightarrow> nat" where
  "bitLength n = (if n = 0 then 0 else Suc (bitLength (n div 2)))"

declare bitLength.simps [simp del]

definition roundToDouble :: "nat \<Rightarrow> nat" where
  "roundToDouble v =
     (if bitLength v \<le> 53 then v
      else (let e = bitLength v - 53;
                q = v div 2 ^ e;
                r = v mod 2 ^ e
            in if 2 ^ e < 2 * r \<or> (2 * r = 2 ^ e \<and> odd q) then (q + 1) * 2 ^ e
               else q * 2 ^ e))"

text \<open>
  The last two steps of \<^verbatim>\<open>parseInt\<close>: the number for a sign and the value of the
  digits. Zero keeps the sign; a value that rounds to \<open>2^1024\<close> or more is infinite.
\<close>

definition toNumber :: "int \<Rightarrow> nat \<Rightarrow> jsNumber" where
  "toNumber sign mathInt =
     (if mathInt = 0 then (if sign < 0 then NegativeZero else Finite 0)
      else if 2 ^ 1024 \<le> roundToDouble mathInt then
        (if sign < 0 then NegativeInfinity else Infinity)
      else Finite (sign * int (roundToDouble mathInt)))"

text \<open>
  \<^verbatim>\<open>parseInt(s, 10)\<close>: leading white space is skipped, one sign is read, then the
  longest run of decimal digits; \<^verbatim>\<open>NaN\<close> when that run is empty, and the double
  nearest to the value of the digits otherwise (as Node computes it; the language
  standard lets an implementation round differently from the 21st digit on). What
  follows the digits is ignored.
\<close>

definition parseInt :: "string \<Rightarrow> jsNumber" where
  "parseInt s =
     (let s1 = dropWhile isWhiteSpace s;
          sign = (case s1 of c # _ \<Rightarrow> if c = CHR ''-'' then - 1 else 1 | [] \<Rightarrow> (1 :: int));
          s2 = (case s1 of c # r \<Rightarrow> if c = CHR ''-'' \<or> c = CHR ''+'' then r else s1 | [] \<Rightarrow> s1);
          ds = takeWhile isDigit s2
      in if ds = [] then NaN else toNumber sign (digitsValue ds))"

definition isNaN :: "jsNumber \<Rightarrow> bool" where
  "isNaN n = (n = NaN)"

section \<open>Superblock names\<close>

text \<open>The object \<^verbatim>\<open>{ order, name }\<close> that \<^verbatim>\<open>superBlockInfo\<close> returns.\<close>

record superBlockInfoT =
  order :: jsNumber
  name :: string

text \<open>
  \<^verbatim>\<open>function superBlockInfo(fileName)\<close>: the name is split at \<^verbatim>\<open>'-'\<close>, the first
  piece is read by \<^verbatim>\<open>parseInt\<close>. When that is \<^verbatim>\<open>NaN\<close> the order is 0 and the
  name is the whole file name; otherwise the order is the number read and the name is
  the remaining pieces joined by \<^verbatim>\<open>'-'\<close>. A split is never empty; for the empty
  list the first piece would be \<^verbatim>\<open>undefined\<close>, which \<^verbatim>\<open>parseInt\<close> reads as \<^verbatim>\<open>NaN\<close>.
\<close>

definition superBlockInfo :: "string \<Rightarrow> superBlockInfoT" where
  "superBlockInfo fileName =
     (case split CHR ''-'' fileName of
        [] \<Rightarrow> \<lparr>order = Finite 0, name = fileName\<rparr>
      | maybeOrder # superBlock \<Rightarrow>
          if isNaN (parseInt maybeOrder) then \<lparr>order = Finite 0, name = fileName\<rparr>
          else \<lparr>order = parseInt maybeOrder, name = join ''-'' superBlock\<rparr>)"

text \<open>
  \<^verbatim>\<open>superBlockInfoFromPath(filePath)\<close> and \<^verbatim>\<open>getBlockNameFromPath(filePath)\<close>: the
  first and the second piece of the path split at \<^verbatim>\<open>path.sep\<close> (POSIX: \<^verbatim>\<open>'/'\<close>). A path
  of one piece has no second piece: the block name is \<^verbatim>\<open>undefined\<close>, here \<open>None\<close>.
  The split is never empty, so the first case of \<open>superBlockInfoFromPath\<close> is not reached.
\<close>

definition superBlockInfoFromPath :: "string \<Rightarrow> superBlockInfoT" where
  "superBlockInfoFromPath filePath =
     (case split CHR ''/'' filePath of
        [] \<Rightarrow> \<lparr>order = Finite 0, name = []\<rparr>
      | maybeSuper # _ \<Rightarrow> superBlockInfo maybeSuper)"

definition getBlockNameFromPath :: "string \<Rightarrow> string option" where
  "getBlockNameFromPath filePath =
     (case split CHR ''/'' filePath of
        _ # block # _ \<Rightarrow> Some block
      | _ \<Rightarrow> None)"

text \<open>A value that may be \<^verbatim>\<open>undefined\<close>, as a template literal or a property key
  reads it.\<close>

definition jsString :: "string option \<Rightarrow> string" where
  "jsString v = (case v of None \<Rightarrow> ''undefined'' | Some s \<Rightarrow> s)"

text \<open>
  \<^verbatim>\<open>path.extname(p)\<close> of Node (POSIX): trailing slashes are dropped, the last piece of
  the path is taken, and the extension runs from its last dot to its end, dot included.
  The result is empty when that piece has no dot, when the last dot is its first
  character, and when the piece is \<^verbatim>\<open>..\<close>.
\<close>

definition basename :: "string \<Rightarrow> string" where
  "basename p =
     rev (takeWhile (\<lambda>c. c \<noteq> CHR ''/'') (dropWhile (\<lambda>c. c = CHR ''/'') (rev p)))"

definition extname :: "string \<Rightarrow> string" where
  "extname p =
     (let base = basename p;
          afterDot = rev (takeWhile (\<lambda>c. c \<noteq> CHR ''.'') (rev base));
          beforeDot = take (length base - Suc (length afterDot)) base
      in if CHR ''.'' \<notin> set base \<or> beforeDot = [] \<or> base = ''..'' then []
         else CHR ''.'' # afterDot)"

section \<open>Errors and messages\<close>

text \<open>
  What the code throws: \<^verbatim>\<open>Error(message)\<close>, the \<^verbatim>\<open>TypeError\<close> of a property access
  on \<^verbatim>\<open>undefined\<close> or of spreading \<^verbatim>\<open>undefined\<close>, and \<^verbatim>\<open>process.exit(code)\<close>. A
  rejected promise of an \<^verbatim>\<open>async\<close> function is the same value: \<open>Inl\<close> of the error.

  \<open>PrototypeReplaced\<close> is no error of the code. It marks the one step of
  \<^verbatim>\<open>buildCurriculum\<close> that this model does not follow: an assignment under the key
  \<^verbatim>\<open>__proto__\<close> adds no property to a plain object, it replaces the prototype of the
  object, and every later lookup goes through the new prototype. The model stops there.
\<close>

datatype error = Error string | TypeError | ProcessExit int | PrototypeReplaced

definition newline :: string where
  "newline = [CHR 0x0A]"

definition quote :: string where
  "quote = [CHR 0x27]"

text \<open>\<open>mentions msg s\<close>: the string \<open>s\<close> stands somewhere in the message.\<close>

definition mentions :: "string \<Rightarrow> string \<Rightarrow> bool" where
  "mentions msg s = list_ex (\<lambda>i. take (length s) (drop i msg) = s) [0 ..< Suc (length msg)]"

section \<open>The data of a curriculum\<close>

text \<open>A JSON value of a metadata file, as far as \<^verbatim>\<open>typeof\<close> tells values apart.\<close>

datatype jsValue = JUndefined | JNull | JBool bool | JNumber int | JString string

text \<open>\<^verbatim>\<open>typeof v\<close>, and whether \<^verbatim>\<open>!v\<close> is false.\<close>

definition typeof :: "jsValue \<Rightarrow> string" where
  "typeof v =
     (case v of
        JUndefined \<Rightarrow> ''undefined''
      | JNull \<Rightarrow> ''object''
      | JBool _ \<Rightarrow> ''boolean''
      | JNumber _ \<Rightarrow> ''number''
      | JString _ \<Rightarrow> ''string'')"

definition truthy :: "jsValue \<Rightarrow> bool" where
  "truthy v =
     (case v of
        JUndefined \<Rightarrow> False
      | JNull \<Rightarrow> False
      | JBool b \<Rightarrow> b
      | JNumber n \<Rightarrow> n \<noteq> 0
      | JString s \<Rightarrow> s \<noteq> [])"

text \<open>
  The block metadata (\<^verbatim>\<open>meta.json\<close>), with the fields this file reads: \<^verbatim>\<open>name\<close>,
  \<^verbatim>\<open>order\<close>, \<^verbatim>\<open>superOrder\<close>, \<^verbatim>\<open>isPrivate\<close>, \<^verbatim>\<open>required\<close>, \<^verbatim>\<open>template\<close>, \<^verbatim>\<open>time\<close>,
  \<^verbatim>\<open>isUpcomingChange\<close> and \<^verbatim>\<open>challengeOrder\<close> (a list of \<^verbatim>\<open>[id, title]\<close> arrays).
  Fields are prefixed \<open>m_\<close>; \<open>None\<close> is an absent field. The entries of \<^verbatim>\<open>required\<close>
  are opaque here (\<open>'q\<close>).
\<close>

record 'q blockMeta =
  m_name :: string
  m_order :: int
  m_superOrder :: int
  m_isPrivate :: "bool option"
  m_required :: "'q list option"
  m_template :: "string option"
  m_time :: "string option"
  m_isUpcomingChange :: jsValue
  m_challengeOrder :: "string list list"

text \<open>
  A seed file of a challenge: \<^verbatim>\<open>key\<close>, \<^verbatim>\<open>head\<close>, \<^verbatim>\<open>contents\<close>, \<^verbatim>\<open>tail\<close> and whatever
  else the object holds (\<open>fileRest\<close>). The parser gives the three text fields as arrays
  of lines, or as something that is not an array; \<^verbatim>\<open>filesToObject\<close> turns them into
  strings, so the type of the three fields is a parameter.
\<close>

datatype seedPart = Lines "string list" | Text string | Absent

record ('c, 'x) challengeFile =
  key :: string
  head :: 'c
  contents :: 'c
  tail :: 'c
  fileRest :: 'x

text \<open>An entry of the prepared \<^verbatim>\<open>files\<close> object:
  \<^verbatim>\<open>{ ...createPoly(file), seed: file.contents.slice(0) }\<close>, the fields of the poly and
  the seed.\<close>

record 'x preparedFile =
  poly :: "(string, 'x) challengeFile"
  seed :: string

text \<open>
  The challenge object. The first record holds what this file reads of a parsed challenge
  (fields prefixed \<open>c_\<close>; \<open>c_rest\<close> is everything else the parser produced); the second
  adds the fields that \<^verbatim>\<open>createChallenge\<close> and \<^verbatim>\<open>prepareChallenge\<close> assign. The types of
  \<^verbatim>\<open>files\<close> and \<^verbatim>\<open>solutionFiles\<close> are parameters: arrays of files after parsing, objects
  keyed by the file key (association lists in insertion order) after preparation.
\<close>

record ('f, 's, 'r, 'q) parsedChallenge =
  c_id :: string
  c_title :: string
  c_originalTitle :: "string option"
  c_challengeType :: int
  c_isPrivate :: "bool option"
  c_required :: "'q list option"
  c_helpCategory :: "string option"
  c_files :: "'f option"
  c_solutionFiles :: "'s option"
  c_rest :: 'r

record ('f, 's, 'r, 'q) challenge = "('f, 's, 'r, 'q) parsedChallenge" +
  c_block :: string
  c_dashedName :: string
  c_order :: int
  c_superOrder :: int
  c_superBlock :: string
  c_challengeOrder :: int
  c_template :: "string option"
  c_time :: "string option"
  c_name :: "string option"

type_synonym ('r, 'q, 'x) parsed =
  "((seedPart, 'x) challengeFile list, (seedPart, 'x) challengeFile list, 'r, 'q) parsedChallenge"

type_synonym ('r, 'q, 'x) decorated =
  "((seedPart, 'x) challengeFile list, (seedPart, 'x) challengeFile list, 'r, 'q) challenge"

type_synonym ('r, 'q, 'x) prepared =
  "((string \<times> 'x preparedFile) list, (string \<times> (string, 'x) challengeFile) list, 'r, 'q) challenge"

text \<open>The comment dictionary: from the English comment text to an object from the
  language to the translation. Objects are association lists in insertion order.\<close>

type_synonym commentMap = "(string \<times> (string \<times> string) list) list"

section \<open>The environment\<close>

text \<open>
  What \<^verbatim>\<open>getChallenges.js\<close> imports or reads and does not define: Node's \<^verbatim>\<open>path\<close> and
  \<^verbatim>\<open>fs\<close>, \<^verbatim>\<open>require\<close> of a metadata file, \<^verbatim>\<open>process.env\<close>, and the modules
  \<^verbatim>\<open>challenge-md-parser\<close>, \<^verbatim>\<open>translation-parser\<close>, \<^verbatim>\<open>is-audited\<close>, \<^verbatim>\<open>slugs\<close>,
  \<^verbatim>\<open>polyvinyl\<close>, \<^verbatim>\<open>block-nameify\<close>, \<^verbatim>\<open>./utils\<close> and \<^verbatim>\<open>challengeTypes\<close>. They are
  parameters of the model. A function that can throw returns a sum.
  \<open>COMMENT_TRANSLATIONS\<close> is the constant of that name, the value of
  \<^verbatim>\<open>createCommentMap\<close> when the module was loaded.
\<close>

record ('r, 'q, 'x) env =
  dirname :: string
  pathResolve :: "string list \<Rightarrow> string"
  pathJoin :: "string list \<Rightarrow> string"
  fsAccess :: "string \<Rightarrow> bool"
  requireMeta :: "string \<Rightarrow> error + 'q blockMeta"
  SHOW_UPCOMING_CHANGES :: "string option"
  supportedLangs :: "string list"
  isAuditedCert :: "string \<Rightarrow> string \<Rightarrow> bool"
  parseMarkdown :: "string \<Rightarrow> error + ('r, 'q, 'x) parsed"
  parseMD :: "string \<Rightarrow> error + ('r, 'q, 'x) parsed"
  translateCommentsInChallenge ::
    "('r, 'q, 'x) parsed \<Rightarrow> string \<Rightarrow> commentMap \<Rightarrow> error + ('r, 'q, 'x) parsed"
  mergeChallenges ::
    "('r, 'q, 'x) parsed \<Rightarrow> ('r, 'q, 'x) parsed \<Rightarrow> error + ('r, 'q, 'x) parsed"
  dasherize :: "string option \<Rightarrow> string"
  nameify :: "string \<Rightarrow> string"
  blockNameify :: "string \<Rightarrow> string"
  helpCategoryMap :: "string \<Rightarrow> string option"
  createPoly :: "(string, 'x) challengeFile \<Rightarrow> error + (string, 'x) challengeFile"
  COMMENT_TRANSLATIONS :: commentMap

text \<open>\<^verbatim>\<open>challengesDir\<close> and \<^verbatim>\<open>metaDir\<close>.\<close>

definition challengesDir :: "('r, 'q, 'x) env \<Rightarrow> string" where
  "challengesDir env = pathResolve env [dirname env, ''./challenges'']"

definition metaDir :: "('r, 'q, 'x) env \<Rightarrow> string" where
  "metaDir env = pathResolve env [challengesDir env, ''_meta'']"

section \<open>Preparing a challenge\<close>

text \<open>\<^verbatim>\<open>arrToString(arr)\<close>: an array is joined with line feeds; anything else goes
  through lodash's \<^verbatim>\<open>toString\<close>, which keeps a string and gives the empty string for
  \<^verbatim>\<open>undefined\<close>.\<close>

definition arrToString :: "seedPart \<Rightarrow> string" where
  "arrToString arr =
     (case arr of Lines ls \<Rightarrow> join newline ls | Text s \<Rightarrow> s | Absent \<Rightarrow> [])"

text \<open>
  \<^verbatim>\<open>filesToObject(files)\<close>: lodash's \<^verbatim>\<open>reduce\<close> over the array, from the empty object;
  each file is stored under its key with \<^verbatim>\<open>head\<close>, \<^verbatim>\<open>contents\<close> and \<^verbatim>\<open>tail\<close> made
  strings. A later file with the same key replaces the earlier one. The object is an
  association list in the order of insertion, which is the order of \<^verbatim>\<open>Object.keys\<close> for
  keys that are not array indices.
\<close>

definition stringifyFile :: "(seedPart, 'x) challengeFile \<Rightarrow> (string, 'x) challengeFile" where
  "stringifyFile file =
     \<lparr>key = key file,
      head = arrToString (head file),
      contents = arrToString (contents file),
      tail = arrToString (tail file),
      fileRest = fileRest file\<rparr>"

definition filesToObject ::
  "(seedPart, 'x) challengeFile list \<Rightarrow> (string \<times> (string, 'x) challengeFile) list" where
  "filesToObject files =
     foldl (\<lambda>map file. AList.update (key file) (stringifyFile file) map) [] files"

text \<open>
  The second pass of \<^verbatim>\<open>prepareChallenge\<close> over the files: for every key of the object
  (each value is an object, so the \<^verbatim>\<open>filter\<close> keeps all), in order, the entry
  \<^verbatim>\<open>[file.key]: { ...createPoly(file), seed: file.contents.slice(0) }\<close> is added.
  \<^verbatim>\<open>createPoly\<close> may throw; the first error ends the pass.
\<close>

fun polyFiles ::
  "('r, 'q, 'x) env \<Rightarrow> (string \<times> 'x preparedFile) list \<Rightarrow> (string, 'x) challengeFile list
     \<Rightarrow> error + (string \<times> 'x preparedFile) list" where
  "polyFiles env files [] = Inr files"
| "polyFiles env files (file # rest) =
     (case createPoly env file of
        Inl e \<Rightarrow> Inl e
      | Inr p \<Rightarrow>
          polyFiles env (AList.update (key file) \<lparr>poly = p, seed = contents file\<rparr> files) rest)"

text \<open>\<^verbatim>\<open>prepareChallenge(challenge)\<close>: the name from the title, the files and the
  solution files as objects, the block dasherized, the superblock through
  \<^verbatim>\<open>blockNameify\<close>.\<close>

definition prepareChallenge ::
  "('r, 'q, 'x) env \<Rightarrow> ('r, 'q, 'x) decorated \<Rightarrow> error + ('r, 'q, 'x) prepared" where
  "prepareChallenge env challenge =
     (case (case c_files challenge of
              None \<Rightarrow> Inr None
            | Some files \<Rightarrow>
                (case polyFiles env [] (map snd (filesToObject files)) of
                   Inl e \<Rightarrow> Inl e
                 | Inr obj \<Rightarrow> Inr (Some obj))) of
        Inl e \<Rightarrow> Inl e
      | Inr files' \<Rightarrow>
          Inr \<lparr>c_id = c_id challenge,
               c_title = c_title challenge,
               c_originalTitle = c_originalTitle challenge,
               c_challengeType = c_challengeType challenge,
               c_isPrivate = c_isPrivate challenge,
               c_required = c_required challenge,
               c_helpCategory = c_helpCategory challenge,
               c_files = files',
               c_solutionFiles = map_option filesToObject (c_solutionFiles challenge),
               c_rest = c_rest challenge,
               c_block = dasherize env (Some (c_block challenge)),
               c_dashedName = c_dashedName challenge,
               c_order = c_order challenge,
               c_superOrder = c_superOrder challenge,
               c_superBlock = blockNameify env (c_superBlock challenge),
               c_challengeOrder = c_challengeOrder challenge,
               c_template = c_template challenge,
               c_time = c_time challenge,
               c_name = Some (nameify env (c_title challenge))\<rparr>)"

section \<open>Merging a translation\<close>

text \<open>
  \<^verbatim>\<open>parseTranslation(engPath, transPath, dict, lang, parse)\<close>: both files are parsed; the
  comments of the English challenge are translated unless its \<^verbatim>\<open>challengeType\<close> is 11;
  the two are merged. The default of \<^verbatim>\<open>parse\<close>, \<^verbatim>\<open>parseMD\<close>, is given at the call.
\<close>

definition parseTranslation ::
  "('r, 'q, 'x) env \<Rightarrow> string \<Rightarrow> string \<Rightarrow> commentMap \<Rightarrow> string
     \<Rightarrow> (string \<Rightarrow> error + ('r, 'q, 'x) parsed) \<Rightarrow> error + ('r, 'q, 'x) parsed" where
  "parseTranslation env engPath transPath dict lang parse =
     (case parse engPath of
        Inl e \<Rightarrow> Inl e
      | Inr engChal \<Rightarrow>
          (case parse transPath of
             Inl e \<Rightarrow> Inl e
           | Inr translatedChal \<Rightarrow>
               (case (if c_challengeType engChal \<noteq> 11
                      then translateCommentsInChallenge env engChal lang dict
                      else Inr engChal) of
                  Inl e \<Rightarrow> Inl e
                | Inr engWithTranslatedComments \<Rightarrow>
                    mergeChallenges env engWithTranslatedComments translatedChal)))"

section \<open>Creating a challenge\<close>

text \<open>lodash's \<^verbatim>\<open>findIndex(array, predicate)\<close>: the index of the first element that
  satisfies the predicate, \<open>-1\<close> when there is none.\<close>

fun findIndexFrom :: "int \<Rightarrow> ('a \<Rightarrow> bool) \<Rightarrow> 'a list \<Rightarrow> int" where
  "findIndexFrom i P [] = - 1"
| "findIndexFrom i P (x # xs) = (if P x then i else findIndexFrom (i + 1) P xs)"

definition findIndex :: "'a list \<Rightarrow> ('a \<Rightarrow> bool) \<Rightarrow> int" where
  "findIndex xs P = findIndexFrom 0 P xs"

text \<open>The predicate \<^verbatim>\<open>([id]) => id === challenge.id\<close> on an entry of
  \<^verbatim>\<open>challengeOrder\<close>: an empty entry has the id \<^verbatim>\<open>undefined\<close>, equal to no string.\<close>

definition entryHasId :: "string \<Rightarrow> string list \<Rightarrow> bool" where
  "entryHasId challengeId entry = (case entry of [] \<Rightarrow> False | i # _ \<Rightarrow> i = challengeId)"

text \<open>\<^verbatim>\<open>getFullPath(pathLang)\<close> inside \<^verbatim>\<open>createChallenge\<close>, and the function that
  \<^verbatim>\<open>hasEnglishSourceCreator(basePath)\<close> returns: whether \<^verbatim>\<open>fs.access\<close> finds the file
  under the english root.\<close>

definition getFullPath :: "('r, 'q, 'x) env \<Rightarrow> string \<Rightarrow> string \<Rightarrow> string \<Rightarrow> string" where
  "getFullPath env basePath filePath pathLang =
     pathResolve env [dirname env, basePath, pathLang, filePath]"

definition hasEnglishSource :: "('r, 'q, 'x) env \<Rightarrow> string \<Rightarrow> string \<Rightarrow> bool" where
  "hasEnglishSource env basePath translationPath =
     fsAccess env (pathJoin env [pathResolve env [dirname env, basePath, ''english''], translationPath])"

text \<open>The messages of the two errors that \<^verbatim>\<open>createChallenge\<close> throws.\<close>

definition notAcceptedMessage :: "string \<Rightarrow> string \<Rightarrow> string" where
  "notAcceptedMessage lang filePath =
     lang @ '' is not a accepted language.'' @ newline @ ''  Trying to parse '' @ filePath"

definition missingEnglishMessage :: "string \<Rightarrow> string \<Rightarrow> string" where
  "missingEnglishMessage filePath englishPath =
     ''Missing English challenge for'' @ newline @ filePath @ newline
       @ ''It should be in'' @ newline @ englishPath @ newline"

text \<open>Lines 227 to 236: the metadata given by the caller, or the one required from
  the block's \<^verbatim>\<open>meta.json\<close>.\<close>

definition resolveMeta ::
  "('r, 'q, 'x) env \<Rightarrow> string \<Rightarrow> 'q blockMeta option \<Rightarrow> error + 'q blockMeta" where
  "resolveMeta env filePath maybeMeta =
     (case maybeMeta of
        Some meta \<Rightarrow> Inr meta
      | None \<Rightarrow>
          requireMeta env
            (pathResolve env
               [metaDir env, ''./'' @ jsString (getBlockNameFromPath filePath) @ ''/meta.json'']))"

text \<open>
  Lines 250 to 273: \<^verbatim>\<open>useEnglish\<close>, \<^verbatim>\<open>isCert\<close> and the choice of the parser. The source
  compares \<^verbatim>\<open>path.extname(filePath)\<close> with \<^verbatim>\<open>'markdown'\<close>.
\<close>

definition isCert :: "string \<Rightarrow> bool" where
  "isCert filePath = (extname filePath = ''markdown'')"

definition parseChallenge ::
  "('r, 'q, 'x) env \<Rightarrow> string \<Rightarrow> string \<Rightarrow> string \<Rightarrow> error + ('r, 'q, 'x) parsed" where
  "parseChallenge env basePath lang filePath =
     (let superBlock = name (superBlockInfoFromPath filePath);
          useEnglish = (lang = ''english'' \<or> \<not> isAuditedCert env lang superBlock)
      in if isCert filePath then
           (if useEnglish then parseMarkdown env (getFullPath env basePath filePath ''english'')
            else parseTranslation env
                   (getFullPath env basePath filePath ''english'')
                   (getFullPath env basePath filePath lang)
                   (COMMENT_TRANSLATIONS env) lang (parseMarkdown env))
         else
           (if useEnglish then parseMD env (getFullPath env basePath filePath ''english'')
            else parseTranslation env
                   (getFullPath env basePath filePath ''english'')
                   (getFullPath env basePath filePath lang)
                   (COMMENT_TRANSLATIONS env) lang (parseMD env)))"

text \<open>Lines 274 to 302: the fields that \<^verbatim>\<open>createChallenge\<close> assigns from the block
  metadata. \<^verbatim>\<open>a || b\<close> is \<open>b\<close> when \<open>a\<close> is absent, \<^verbatim>\<open>false\<close> or the empty string.\<close>

definition decorateChallenge ::
  "('r, 'q, 'x) env \<Rightarrow> string \<Rightarrow> string \<Rightarrow> 'q blockMeta \<Rightarrow> ('r, 'q, 'x) parsed
     \<Rightarrow> ('r, 'q, 'x) decorated" where
  "decorateChallenge env lang filePath meta challenge =
     (let challengeOrder = findIndex (m_challengeOrder meta) (entryHasId (c_id challenge));
          required = (case m_required meta of None \<Rightarrow> [] | Some r \<Rightarrow> r)
      in \<lparr>c_id = c_id challenge,
          c_title = c_title challenge,
          c_originalTitle = None,
          c_challengeType = c_challengeType challenge,
          c_isPrivate = (if c_isPrivate challenge = Some True then Some True else m_isPrivate meta),
          c_required = Some (required @ (case c_required challenge of None \<Rightarrow> [] | Some r \<Rightarrow> r)),
          c_helpCategory =
            (case c_helpCategory challenge of
               None \<Rightarrow> helpCategoryMap env (dasherize env (Some (m_name meta)))
             | Some h \<Rightarrow>
                 if h = [] then helpCategoryMap env (dasherize env (Some (m_name meta)))
                 else Some h),
          c_files = c_files challenge,
          c_solutionFiles = c_solutionFiles challenge,
          c_rest = c_rest challenge,
          c_block = m_name meta,
          c_dashedName =
            (if lang = ''english'' then dasherize env (Some (c_title challenge))
             else dasherize env (c_originalTitle challenge)),
          c_order = m_order meta,
          c_superOrder = m_superOrder meta,
          c_superBlock = name (superBlockInfoFromPath filePath),
          c_challengeOrder = challengeOrder,
          c_template = m_template meta,
          c_time = m_time meta,
          c_name = None\<rparr>)"

text \<open>
  The function that \<^verbatim>\<open>createChallengeCreator(basePath, lang)\<close> returns,
  \<^verbatim>\<open>createChallenge(filePath, maybeMeta)\<close>: the metadata, the check of the language, the
  check of the English source, the parse, the decoration and the preparation, in the
  order of the source.
\<close>

definition createChallenge ::
  "('r, 'q, 'x) env \<Rightarrow> string \<Rightarrow> string \<Rightarrow> string \<Rightarrow> 'q blockMeta option
     \<Rightarrow> error + ('r, 'q, 'x) prepared" where
  "createChallenge env basePath lang filePath maybeMeta =
     (case resolveMeta env filePath maybeMeta of
        Inl e \<Rightarrow> Inl e
      | Inr meta \<Rightarrow>
          if lang \<notin> set (supportedLangs env) then
            Inl (Error (notAcceptedMessage lang filePath))
          else if lang \<noteq> ''english'' \<and> \<not> hasEnglishSource env basePath filePath then
            Inl (Error (missingEnglishMessage filePath (getFullPath env basePath filePath ''english'')))
          else
            (case parseChallenge env basePath lang filePath of
               Inl e \<Rightarrow> Inl e
             | Inr challenge \<Rightarrow>
                 prepareChallenge env (decorateChallenge env lang filePath meta challenge)))"

section \<open>Building the curriculum\<close>

text \<open>
  The curriculum object: from the superblock name to \<^verbatim>\<open>{ superBlock, order, blocks }\<close>,
  where \<^verbatim>\<open>blocks\<close> goes from the block name to \<^verbatim>\<open>{ meta, challenges }\<close>. Both are plain
  objects (\<^verbatim>\<open>{}\<close>): the maps below hold their own properties, those that were assigned,
  and the prototype of both is \<^verbatim>\<open>Object.prototype\<close>. An entry of the directory walk has
  \<^verbatim>\<open>name\<close>, \<^verbatim>\<open>depth\<close>, \<^verbatim>\<open>path\<close> (relative to the language root) and
  \<^verbatim>\<open>stat.isDirectory()\<close>; its fields are prefixed \<open>f_\<close>.
\<close>

record ('r, 'q, 'x) blockInfo =
  meta :: "'q blockMeta"
  challenges :: "('r, 'q, 'x) prepared list"

record ('r, 'q, 'x) superBlockEntry =
  superBlock :: string
  sb_order :: jsNumber
  blocks :: "string \<Rightarrow> ('r, 'q, 'x) blockInfo option"

type_synonym ('r, 'q, 'x) curriculum = "string \<Rightarrow> ('r, 'q, 'x) superBlockEntry option"

record walkEntry =
  f_name :: string
  f_depth :: nat
  f_path :: string
  f_isDirectory :: bool

definition blockMetaPath :: "('r, 'q, 'x) env \<Rightarrow> string option \<Rightarrow> string" where
  "blockMetaPath env blockName =
     pathResolve env [dirname env, ''./challenges/_meta/'' @ jsString blockName @ ''/meta.json'']"

definition missingUpcomingMessage :: "string \<Rightarrow> string" where
  "missingUpcomingMessage metaPath =
     ''meta file at '' @ metaPath
       @ '' is missing 'isUpcomingChange', it must be 'true' or 'false'' @ quote"

text \<open>
  The names of the properties that a plain object inherits from \<^verbatim>\<open>Object.prototype\<close>.
  A lookup \<^verbatim>\<open>obj[key]\<close> under one of them finds a value when the object has no property
  of its own under that name: a function, or \<^verbatim>\<open>Object.prototype\<close> itself for
  \<^verbatim>\<open>__proto__\<close>. That value is truthy and has none of the properties \<^verbatim>\<open>blocks\<close>,
  \<^verbatim>\<open>meta\<close> and \<^verbatim>\<open>challenges\<close>.
\<close>

definition objectPrototypeKeys :: "string list" where
  "objectPrototypeKeys =
     [''constructor'', ''__defineGetter__'', ''__defineSetter__'', ''hasOwnProperty'',
      ''__lookupGetter__'', ''__lookupSetter__'', ''isPrototypeOf'', ''propertyIsEnumerable'',
      ''toString'', ''valueOf'', ''__proto__'', ''toLocaleString'']"

text \<open>
  \<^verbatim>\<open>buildCurriculum(file, curriculum, lang)\<close>, with the curriculum passed in and
  returned. The four cases of the source in its order: a directory at depth 1 (a
  superblock), a directory at depth 2 (a block), the files \<^verbatim>\<open>meta.json\<close> and
  \<^verbatim>\<open>.DS_Store\<close>, and every other entry (a challenge).

  \<^verbatim>\<open>curriculum[superBlock]\<close> without a property of its own is \<^verbatim>\<open>undefined\<close> or an
  inherited value without \<^verbatim>\<open>blocks\<close>: in both cases writing a block into it is a
  \<^verbatim>\<open>TypeError\<close> (line 170), and reading one in the last case is caught and ends in
  \<^verbatim>\<open>process.exit(1)\<close> (lines 185 to 193).

  \<^verbatim>\<open>blocks[block]\<close> (line 185) without a property of its own is \<^verbatim>\<open>undefined\<close>, and the
  entry is skipped, unless the name of the block is inherited: then \<^verbatim>\<open>challengeBlock\<close>
  is the inherited value, \<^verbatim>\<open>meta\<close> is \<^verbatim>\<open>undefined\<close>, \<^verbatim>\<open>createChallenge\<close> is called
  without metadata, and when it returns, spreading \<^verbatim>\<open>challengeBlock.challenges\<close>, which
  is \<^verbatim>\<open>undefined\<close>, is a \<^verbatim>\<open>TypeError\<close> (line 199).
\<close>

definition buildCurriculum ::
  "('r, 'q, 'x) env \<Rightarrow> walkEntry \<Rightarrow> ('r, 'q, 'x) curriculum \<Rightarrow> string
     \<Rightarrow> error + ('r, 'q, 'x) curriculum" where
  "buildCurriculum env file curriculum lang =
     (if f_depth file = 1 \<and> f_isDirectory file then
        (let info = superBlockInfo (f_name file)
         in if name info = ''__proto__'' then Inl PrototypeReplaced
            else Inr (curriculum(name info \<mapsto>
                        \<lparr>superBlock = name info, sb_order = order info, blocks = Map.empty\<rparr>)))
      else if f_depth file = 2 \<and> f_isDirectory file then
        (let blockName = getBlockNameFromPath (f_path file);
             metaPath = blockMetaPath env blockName
         in case requireMeta env metaPath of
              Inl e \<Rightarrow> Inl e
            | Inr blockMeta \<Rightarrow>
                (let isUpcomingChange = m_isUpcomingChange blockMeta
                 in if typeof isUpcomingChange \<noteq> ''boolean'' then
                      Inl (Error (missingUpcomingMessage metaPath))
                    else if \<not> truthy isUpcomingChange
                            \<or> SHOW_UPCOMING_CHANGES env = Some ''true'' then
                      (case curriculum (name (superBlockInfoFromPath (f_path file))) of
                         None \<Rightarrow> Inl TypeError
                       | Some sb \<Rightarrow>
                           if f_name file = ''__proto__'' then Inl PrototypeReplaced
                           else
                             Inr (curriculum(name (superBlockInfoFromPath (f_path file)) \<mapsto>
                                    sb\<lparr>blocks := (blocks sb)(f_name file \<mapsto>
                                           \<lparr>meta = blockMeta, challenges = []\<rparr>)\<rparr>)))
                    else Inr curriculum))
      else if f_name file = ''meta.json'' \<or> f_name file = ''.DS_Store'' then Inr curriculum
      else
        (let block = jsString (getBlockNameFromPath (f_path file));
             superBlock = name (superBlockInfoFromPath (f_path file))
         in case curriculum superBlock of
              None \<Rightarrow> Inl (ProcessExit 1)
            | Some sb \<Rightarrow>
                (case blocks sb block of
                   None \<Rightarrow>
                     if block \<in> set objectPrototypeKeys then
                       (case createChallenge env (challengesDir env) lang (f_path file) None of
                          Inl e \<Rightarrow> Inl e
                        | Inr challenge \<Rightarrow> Inl TypeError)
                     else Inr curriculum
                 | Some challengeBlock \<Rightarrow>
                     (case createChallenge env (challengesDir env) lang (f_path file)
                             (Some (meta challengeBlock)) of
                        Inl e \<Rightarrow> Inl e
                      | Inr challenge \<Rightarrow>
                          Inr (curriculum(superBlock \<mapsto>
                                 sb\<lparr>blocks := (blocks sb)(block \<mapsto>
                                        challengeBlock\<lparr>challenges :=
                                          challenges challengeBlock @ [challenge]\<rparr>)\<rparr>))))))"

text \<open>
  The entries of the walk handled one after the other, each on the curriculum the
  earlier ones left (\<^verbatim>\<open>getChallengesForLang\<close> calls \<^verbatim>\<open>buildCurriculum\<close> for every
  \<^verbatim>\<open>data\<close> event on the one shared object). The first error ends the run.
\<close>

fun buildAll ::
  "('r, 'q, 'x) env \<Rightarrow> string \<Rightarrow> walkEntry list \<Rightarrow> ('r, 'q, 'x) curriculum
     \<Rightarrow> error + ('r, 'q, 'x) curriculum" where
  "buildAll env lang [] curriculum = Inr curriculum"
| "buildAll env lang (file # files) curriculum =
     (case buildCurriculum env file curriculum lang of
        Inl e \<Rightarrow> Inl e
      | Inr curriculum' \<Rightarrow> buildAll env lang files curriculum')"

section \<open>The comment dictionary\<close>

text \<open>
  An entry \<^verbatim>\<open>{ id, text }\<close> of a comment dictionary (fields \<open>e_id\<close>, \<open>e_text\<close>), and what
  \<^verbatim>\<open>createCommentMap(dictionariesDir)\<close> reads: the names in the directory, the
  dictionary module of each language, and the two lists of the english module.
\<close>

record commentEntry =
  e_id :: string
  e_text :: string

record dictionariesDir =
  readdirSync :: "string list"
  requireComments :: "string \<Rightarrow> commentEntry list"
  COMMENTS_TO_TRANSLATE :: "commentEntry list"
  COMMENTS_TO_NOT_TRANSLATE :: "commentEntry list"

definition missingTranslationMessage :: "string \<Rightarrow> string \<Rightarrow> string" where
  "missingTranslationMessage text' engId =
     ''Missing translation for comment'' @ newline @ quote @ text' @ quote @ newline
       @ ''        with id of '' @ engId"

text \<open>
  \<^verbatim>\<open>getTranslationEntry(dicts, { engId, text })\<close>: the \<^verbatim>\<open>reduce\<close> over the keys of
  \<^verbatim>\<open>dicts\<close>. For each language the first entry with the id is looked up with
  \<^verbatim>\<open>find\<close>; when there is none the error is thrown.
\<close>

fun translationEntries ::
  "(string \<times> commentEntry list) list \<Rightarrow> string \<Rightarrow> string \<Rightarrow> (string \<times> string) list
     \<Rightarrow> string list \<Rightarrow> error + (string \<times> string) list" where
  "translationEntries dicts engId text' acc [] = Inr acc"
| "translationEntries dicts engId text' acc (lang # langs) =
     (case map_of dicts lang of
        None \<Rightarrow> Inl TypeError
      | Some dict \<Rightarrow>
          (case find (\<lambda>e. engId = e_id e) dict of
             Some entry \<Rightarrow>
               translationEntries dicts engId text' (AList.update lang (e_text entry) acc) langs
           | None \<Rightarrow> Inl (Error (missingTranslationMessage text' engId))))"

definition getTranslationEntry ::
  "(string \<times> commentEntry list) list \<Rightarrow> string \<Rightarrow> string \<Rightarrow> error + (string \<times> string) list" where
  "getTranslationEntry dicts engId text' = translationEntries dicts engId text' [] (map fst dicts)"

text \<open>The \<^verbatim>\<open>reduce\<close> that builds \<^verbatim>\<open>translatedCommentMap\<close>.\<close>

fun translatedComments ::
  "(string \<times> commentEntry list) list \<Rightarrow> commentMap \<Rightarrow> commentEntry list \<Rightarrow> error + commentMap" where
  "translatedComments dicts acc [] = Inr acc"
| "translatedComments dicts acc (c # cs) =
     (case getTranslationEntry dicts (e_id c) (e_text c) of
        Inl e \<Rightarrow> Inl e
      | Inr entry \<Rightarrow> translatedComments dicts (AList.update (e_text c) entry acc) cs)"

text \<open>
  \<^verbatim>\<open>createCommentMap(dictionariesDir)\<close>: the languages are the names in the directory
  but \<^verbatim>\<open>english\<close>; the translated map and the untranslatable map are built and spread
  into one object, the untranslatable entries last.
\<close>

definition languages :: "dictionariesDir \<Rightarrow> string list" where
  "languages d = filter (\<lambda>x. x \<noteq> ''english'') (readdirSync d)"

definition dictionaries :: "dictionariesDir \<Rightarrow> (string \<times> commentEntry list) list" where
  "dictionaries d =
     foldl (\<lambda>acc lang. AList.update lang (requireComments d lang) acc) [] (languages d)"

definition untranslatableCommentMap :: "dictionariesDir \<Rightarrow> commentMap" where
  "untranslatableCommentMap d =
     foldl (\<lambda>acc c.
              AList.update (e_text c)
                (foldl (\<lambda>acc lang. AList.update lang (e_text c) acc) [] (languages d)) acc)
       [] (COMMENTS_TO_NOT_TRANSLATE d)"

definition createCommentMap :: "dictionariesDir \<Rightarrow> error + commentMap" where
  "createCommentMap d =
     (case translatedComments (dictionaries d) [] (COMMENTS_TO_TRANSLATE d) of
        Inl e \<Rightarrow> Inl e
      | Inr translatedCommentMap \<Rightarrow>
          Inr (foldl (\<lambda>acc (k, v). AList.update k v acc) translatedCommentMap
                 (untranslatableCommentMap d)))"

section \<open>The translation parser and the file model, from their description\<close>

text \<open>
  Modelled from the spec: \<^verbatim>\<open>translateCommentsInChallenge\<close> of
  \<^verbatim>\<open>tools/challenge-md-parser/translation-parser\<close>, which is not among the sources. The
  specification says that it "rewrites English-side code comments to the target language
  by dictionary lookup". The code comments of a challenge are taken as the part of the
  parsed challenge that this file does not read (\<open>c_rest\<close>), a list of comment texts. A
  comment without an entry in the dictionary is kept.
\<close>

definition translateComment :: "commentMap \<Rightarrow> string \<Rightarrow> string \<Rightarrow> string" where
  "translateComment dict lang comment =
     (case map_of dict comment of
        None \<Rightarrow> comment
      | Some entry \<Rightarrow> (case map_of entry lang of None \<Rightarrow> comment | Some t \<Rightarrow> t))"

definition specTranslateCommentsInChallenge ::
  "(string list, 'q, 'x) parsed \<Rightarrow> string \<Rightarrow> commentMap \<Rightarrow> error + (string list, 'q, 'x) parsed" where
  "specTranslateCommentsInChallenge engChal lang dict =
     Inr (engChal\<lparr>c_rest := map (translateComment dict lang) (c_rest engChal)\<rparr>)"

text \<open>
  Modelled from the spec: \<^verbatim>\<open>mergeChallenges\<close> of the same module, not among the sources.
  The specification gives its policy in two sentences. Section 4.3: "comments from
  English-translated, everything else authoritative from the target-language parse unless
  overridden". Section 8: "Video-type challenges (challengeType 11) bypass comment
  translation entirely: merged output's comments equal the translated file's own
  comments, not English's". So the merged challenge is the translated one, with the
  comments of the English side unless the English side is a video.
\<close>

definition specMergeChallenges ::
  "(string list, 'q, 'x) parsed \<Rightarrow> (string list, 'q, 'x) parsed
     \<Rightarrow> error + (string list, 'q, 'x) parsed" where
  "specMergeChallenges engChal transChal =
     Inr (if c_challengeType engChal = 11 then transChal
          else transChal\<lparr>c_rest := c_rest engChal\<rparr>)"


section \<open>A small curriculum for the examples\<close>

text \<open>
  A concrete environment on which the theorems below are evaluated: one superblock
  \<open>01-html\<close> with the block \<open>basic-html\<close>, the challenge \<open>say-hello.md\<close> and the video
  challenge \<open>video.md\<close> in english and in espanol, a file \<open>cert.markdown\<close>, two blocks
  that are upcoming changes (\<open>upcoming\<close> and \<open>constructor\<close>, each with a challenge
  \<open>soon.md\<close>) and a block whose metadata has no flag. The translation parser is the
  one described above; the file model accepts every file and returns it.
  \<open>exampleResolve\<close> stands for \<^verbatim>\<open>path.resolve\<close> and \<^verbatim>\<open>path.join\<close> on paths without
  \<^verbatim>\<open>..\<close>: an absolute piece starts over, a leading \<^verbatim>\<open>./\<close> is dropped. \<^verbatim>\<open>require\<close> of
  a file that is not there throws an error whose message starts with
  \<^verbatim>\<open>Cannot find module\<close> and the path in quotes.
\<close>

definition exampleResolve :: "string list \<Rightarrow> string" where
  "exampleResolve pieces =
     foldl (\<lambda>acc piece.
              if take 1 piece = ''/'' then piece
              else if take 2 piece = ''./'' then acc @ ''/'' @ drop 2 piece
              else acc @ ''/'' @ piece) [] pieces"

definition exampleMeta :: "string blockMeta" where
  "exampleMeta =
     \<lparr>m_name = ''Basic HTML'', m_order = 0, m_superOrder = 1, m_isPrivate = None,
      m_required = None, m_template = None, m_time = Some ''5 hours'',
      m_isUpcomingChange = JBool False,
      m_challengeOrder = [[''id1'', ''Headline''], [''id2'', ''Say Hello'']]\<rparr>"

definition upcomingMeta :: "string blockMeta" where
  "upcomingMeta = exampleMeta\<lparr>m_name := ''Upcoming'', m_isUpcomingChange := JBool True\<rparr>"

definition constructorMeta :: "string blockMeta" where
  "constructorMeta = exampleMeta\<lparr>m_name := ''Constructor'', m_isUpcomingChange := JBool True\<rparr>"

definition flaglessMeta :: "string blockMeta" where
  "flaglessMeta = exampleMeta\<lparr>m_name := ''Flagless'', m_isUpcomingChange := JUndefined\<rparr>"

definition exampleParsed ::
  "string \<Rightarrow> string \<Rightarrow> int \<Rightarrow> string list \<Rightarrow> (string list, string, unit) parsed" where
  "exampleParsed challengeId title challengeType comments =
     \<lparr>c_id = challengeId, c_title = title, c_originalTitle = None,
      c_challengeType = challengeType, c_isPrivate = None, c_required = None,
      c_helpCategory = None,
      c_files = Some [\<lparr>key = ''a'', head = Lines [], contents = Lines [''x''], tail = Lines [],
                        fileRest = ()\<rparr>],
      c_solutionFiles = None, c_rest = comments\<rparr>"

definition exampleEnv :: "(string list, string, unit) env" where
  "exampleEnv =
     \<lparr>dirname = ''/fcc'',
      pathResolve = exampleResolve,
      pathJoin = exampleResolve,
      fsAccess = (\<lambda>p. p = ''/fcc/challenges/english/01-html/basic-html/say-hello.md''),
      requireMeta =
        (\<lambda>p. if p = ''/fcc/challenges/_meta/basic-html/meta.json'' then Inr exampleMeta
             else if p = ''/fcc/challenges/_meta/upcoming/meta.json'' then Inr upcomingMeta
             else if p = ''/fcc/challenges/_meta/flagless/meta.json'' then Inr flaglessMeta
             else if p = ''/fcc/challenges/_meta/constructor/meta.json'' then Inr constructorMeta
             else Inl (Error (''Cannot find module '' @ quote @ p @ quote))),
      SHOW_UPCOMING_CHANGES = None,
      supportedLangs = [''english'', ''espanol''],
      isAuditedCert = (\<lambda>lang superBlock. lang = ''espanol''),
      parseMarkdown = (\<lambda>p. Inr (exampleParsed ''cert'' ''Certificate'' 7 [])),
      parseMD =
        (\<lambda>p. if p = ''/fcc/challenges/english/01-html/basic-html/say-hello.md''
               then Inr (exampleParsed ''id2'' ''Say Hello'' 0 [''// hello''])
             else if p = ''/fcc/challenges/espanol/01-html/basic-html/say-hello.md''
               then Inr (exampleParsed ''id2'' ''Di Hola'' 0 [''// untranslated''])
             else if p = ''/fcc/challenges/english/01-html/basic-html/cert.markdown''
               then Inr (exampleParsed ''id3'' ''Parsed by parseMD'' 7 [])
             else if p = ''/fcc/challenges/english/01-html/basic-html/video.md''
               then Inr (exampleParsed ''id4'' ''Video'' 11 [''// hello''])
             else if p = ''/fcc/challenges/espanol/01-html/basic-html/video.md''
               then Inr (exampleParsed ''id4'' ''Video ES'' 11 [''// own comment''])
             else if p = ''/fcc/challenges/english/01-html/constructor/soon.md''
               then Inr (exampleParsed ''id5'' ''Soon'' 0 [])
             else Inl (Error ''ENOENT'')),
      translateCommentsInChallenge = specTranslateCommentsInChallenge,
      mergeChallenges = specMergeChallenges,
      dasherize = jsString,
      nameify = (\<lambda>s. s),
      blockNameify = (\<lambda>s. s),
      helpCategoryMap = (\<lambda>k. None),
      createPoly = Inr,
      COMMENT_TRANSLATIONS = [(''// hello'', [(''espanol'', ''// hola'')])]\<rparr>"

text \<open>Entries of the walk over the example: the superblock directory, the directories
  of the two blocks that are upcoming changes, each with its challenge file, and the
  directory of the block whose metadata has no flag.\<close>

definition htmlDir :: walkEntry where
  "htmlDir = \<lparr>f_name = ''01-html'', f_depth = 1, f_path = ''01-html'', f_isDirectory = True\<rparr>"

definition upcomingDir :: walkEntry where
  "upcomingDir =
     \<lparr>f_name = ''upcoming'', f_depth = 2, f_path = ''01-html/upcoming'', f_isDirectory = True\<rparr>"

definition upcomingLeaf :: walkEntry where
  "upcomingLeaf =
     \<lparr>f_name = ''soon.md'', f_depth = 3, f_path = ''01-html/upcoming/soon.md'',
      f_isDirectory = False\<rparr>"

definition constructorDir :: walkEntry where
  "constructorDir =
     \<lparr>f_name = ''constructor'', f_depth = 2, f_path = ''01-html/constructor'',
      f_isDirectory = True\<rparr>"

definition constructorLeaf :: walkEntry where
  "constructorLeaf =
     \<lparr>f_name = ''soon.md'', f_depth = 3, f_path = ''01-html/constructor/soon.md'',
      f_isDirectory = False\<rparr>"

definition flaglessDir :: walkEntry where
  "flaglessDir =
     \<lparr>f_name = ''flagless'', f_depth = 2, f_path = ''01-html/flagless'', f_isDirectory = True\<rparr>"

definition basicHtmlDir :: walkEntry where
  "basicHtmlDir =
     \<lparr>f_name = ''basic-html'', f_depth = 2, f_path = ''01-html/basic-html'',
      f_isDirectory = True\<rparr>"

definition emptyCurriculum :: "(string list, string, unit) curriculum" where
  "emptyCurriculum = Map.empty"

definition htmlCurriculum :: "(string list, string, unit) curriculum" where
  "htmlCurriculum =
     Map.empty(''html'' \<mapsto> \<lparr>superBlock = ''html'', sb_order = Finite 1, blocks = Map.empty\<rparr>)"

section \<open>The entries of a walk\<close>

text \<open>
  What \<^verbatim>\<open>buildCurriculum\<close> relies on in an entry that \<^verbatim>\<open>readdirp-walk\<close> emits: the name
  is the last piece of the path, and the depth is the number of pieces.
\<close>

definition walked :: "walkEntry \<Rightarrow> bool" where
  "walked file =
     (f_name file = last (split CHR ''/'' (f_path file))
      \<and> f_depth file = length (split CHR ''/'' (f_path file)))"

text \<open>No superblock of the curriculum has a block of this name.\<close>

definition noBlock :: "string \<Rightarrow> ('r, 'q, 'x) curriculum \<Rightarrow> bool" where
  "noBlock b curriculum = (\<forall>s sb. curriculum s = Some sb \<longrightarrow> blocks sb b = None)"

text \<open>Two dictionary directories for the examples: one where espanol and chinese both
  translate the comment \<open>c1\<close>, and one where the chinese dictionary is empty.\<close>

definition exampleDictionaries :: dictionariesDir where
  "exampleDictionaries =
     \<lparr>readdirSync = [''chinese'', ''english'', ''espanol''],
      requireComments =
        (\<lambda>lang. if lang = ''espanol'' then [\<lparr>e_id = ''c1'', e_text = ''// hola''\<rparr>]
                else if lang = ''chinese'' then [\<lparr>e_id = ''c1'', e_text = ''// nihao''\<rparr>]
                else []),
      COMMENTS_TO_TRANSLATE = [\<lparr>e_id = ''c1'', e_text = ''// hello''\<rparr>],
      COMMENTS_TO_NOT_TRANSLATE = [\<lparr>e_id = ''n1'', e_text = ''// jQuery''\<rparr>]\<rparr>"

definition incompleteDictionaries :: dictionariesDir where
  "incompleteDictionaries =
     exampleDictionaries\<lparr>requireComments :=
       (\<lambda>lang. if lang = ''espanol'' then [\<lparr>e_id = ''c1'', e_text = ''// hola''\<rparr>] else [])\<rparr>"

section \<open>Properties of the string primitives\<close>

lemma split_no_sep: "sep \<notin> set s \<Longrightarrow> split sep s = [s]"
proof -
  assume a: "sep \<notin> set s"
  then have t: "takeWhile (\<lambda>c. c \<noteq> sep) s = s"
    by (auto simp: takeWhile_eq_all_conv)
  from a have d: "dropWhile (\<lambda>c. c \<noteq> sep) s = []"
    by auto
  show ?thesis
    unfolding split.simps [of sep s] d t by simp
qed

lemma split_at_sep: "sep \<notin> set a \<Longrightarrow> split sep (a @ sep # rest) = a # split sep rest"
proof -
  assume a: "sep \<notin> set a"
  then have ne: "\<And>c. c \<in> set a \<Longrightarrow> c \<noteq> sep"
    by auto
  have t: "takeWhile (\<lambda>c. c \<noteq> sep) (a @ sep # rest) = a"
    using takeWhile_append2 [of a "\<lambda>c. c \<noteq> sep" "sep # rest"] ne by simp
  have d: "dropWhile (\<lambda>c. c \<noteq> sep) (a @ sep # rest) = sep # rest"
    using dropWhile_append2 [of a "\<lambda>c. c \<noteq> sep" "sep # rest"] ne by simp
  show ?thesis
    unfolding split.simps [of sep "a @ sep # rest"] d t by simp
qed

lemma split_hd: "\<exists>rest. split sep s = takeWhile (\<lambda>c. c \<noteq> sep) s # rest"
  unfolding split.simps [of sep s] by (auto split: list.split)

lemma split_not_Nil: "split sep s \<noteq> []"
  using split_hd [of sep s] by auto

lemma hd_split: "hd (split sep s) = takeWhile (\<lambda>c. c \<noteq> sep) s"
  using split_hd [of sep s] by auto

lemma join_split: "join [sep] (split sep s) = s"
proof (induction sep s rule: split.induct)
  case (1 sep s)
  show ?case
  proof (cases "dropWhile (\<lambda>c. c \<noteq> sep) s")
    case Nil
    then have t: "takeWhile (\<lambda>c. c \<noteq> sep) s = s"
      by (auto simp: takeWhile_eq_all_conv)
    show ?thesis
      unfolding split.simps [of sep s] Nil t by simp
  next
    case (Cons x rest)
    have x: "x = sep"
      using hd_dropWhile [of "\<lambda>c. c \<noteq> sep" s] Cons by simp
    have s: "takeWhile (\<lambda>c. c \<noteq> sep) s @ sep # rest = s"
      using Cons x takeWhile_dropWhile_id [of "\<lambda>c. c \<noteq> sep" s] by simp
    obtain y ys where r: "split sep rest = y # ys"
      using split_not_Nil [of sep rest] by (cases "split sep rest") auto
    have "join [sep] (split sep rest) = rest"
      using "1.IH" Cons by simp
    with r have j: "join [sep] (takeWhile (\<lambda>c. c \<noteq> sep) s # split sep rest)
        = takeWhile (\<lambda>c. c \<noteq> sep) s @ sep # rest"
      by simp
    have e: "split sep s = takeWhile (\<lambda>c. c \<noteq> sep) s # split sep rest"
      unfolding split.simps [of sep s] Cons by simp
    have "join [sep] (split sep s) = takeWhile (\<lambda>c. c \<noteq> sep) s @ sep # rest"
      unfolding e by (rule j)
    also have "\<dots> = s"
      by (rule s)
    finally show ?thesis .
  qed
qed

lemma bitLength_le: "n < 2 ^ k \<Longrightarrow> bitLength n \<le> k"
proof (induction k arbitrary: n)
  case 0
  then show ?case by (simp add: bitLength.simps)
next
  case (Suc k)
  then have "n div 2 < 2 ^ k" by simp
  from Suc.IH [OF this] show ?case
    by (subst bitLength.simps) simp
qed

lemma roundToDouble_exact: "v < 2 ^ 53 \<Longrightarrow> roundToDouble v = v"
  by (simp add: roundToDouble_def bitLength_le)

lemma toNumber_exact: "v < 2 ^ 53 \<Longrightarrow> toNumber 1 v = Finite (int v)"
  by (simp add: toNumber_def roundToDouble_exact)

lemma toNumber_not_NaN: "toNumber sign v \<noteq> NaN"
  by (simp add: toNumber_def)

lemma roundToDouble_example: "roundToDouble 9007199254740993 = 9007199254740992"
  by (simp add: roundToDouble_def bitLength.simps Let_def)

lemma parseInt_digits:
  assumes "ds \<noteq> []" and "\<forall>d \<in> set ds. isDigit d" and "rest = [] \<or> \<not> isDigit (hd rest)"
  shows "parseInt (ds @ rest) = toNumber 1 (digitsValue ds)"
proof -
  obtain d ds' where ds: "ds = d # ds'"
    using assms(1) by (cases ds) auto
  have d: "isDigit d"
    using assms(2) ds by simp
  then have nws: "\<not> isWhiteSpace d" and nsign: "d \<noteq> CHR ''-''" "d \<noteq> CHR ''+''"
    by (auto simp: isDigit_def isWhiteSpace_def)
  have tw: "takeWhile isDigit (ds @ rest) = ds"
  proof (cases rest)
    case Nil
    then show ?thesis using assms(2) by (simp add: takeWhile_eq_all_conv)
  next
    case (Cons c cs)
    then have "\<not> isDigit c" using assms(3) by simp
    with Cons assms(2) show ?thesis by (simp add: takeWhile_append2)
  qed
  have dw: "dropWhile isWhiteSpace (ds @ rest) = ds @ rest"
    using nws ds by simp
  show ?thesis
    unfolding parseInt_def dw
    using tw nsign ds by (simp add: Let_def)
qed

lemma parseInt_no_number:
  assumes "\<not> isDigit c" and "\<not> isWhiteSpace c" and "c \<noteq> CHR ''+''" and "c \<noteq> CHR ''-''"
  shows "parseInt (c # rest) = NaN"
  using assms by (simp add: parseInt_def Let_def)

lemma parseInt_empty: "parseInt [] = NaN"
  by (simp add: parseInt_def)

lemma parseInt_examples:
  "parseInt ''08'' = Finite 8"
  "parseInt ''01'' = Finite 1"
  "parseInt ''3rd'' = Finite 3"
  "parseInt ''42'' = Finite 42"
  "parseInt ''extra'' = NaN"
  "parseInt ''front'' = NaN"
  by (simp_all add: parseInt_def isWhiteSpace_def isDigit_def digitsValue_def digitValue_def
      toNumber_exact)

lemma parseInt_rounded: "parseInt ''9007199254740993x'' = Finite 9007199254740992"
  by (simp add: parseInt_def isWhiteSpace_def isDigit_def digitsValue_def digitValue_def
      toNumber_def roundToDouble_example)

lemma superBlockInfo_no_number:
  assumes "\<not> isDigit c" and "\<not> isWhiteSpace c" and "c \<noteq> CHR ''+''"
  shows "superBlockInfo (c # rest) = \<lparr>order = Finite 0, name = c # rest\<rparr>"
proof -
  have "parseInt (hd (split CHR ''-'' (c # rest))) = NaN"
  proof (cases "c = CHR ''-''")
    case True
    then show ?thesis
      unfolding hd_split by (simp add: parseInt_empty)
  next
    case False
    then have "takeWhile (\<lambda>x. x \<noteq> CHR ''-'') (c # rest)
        = c # takeWhile (\<lambda>x. x \<noteq> CHR ''-'') rest"
      by simp
    with assms False show ?thesis
      unfolding hd_split by (simp add: parseInt_no_number)
  qed
  then show ?thesis
    by (cases "split CHR ''-'' (c # rest)") (simp_all add: superBlockInfo_def isNaN_def)
qed

section \<open>Superblock order and name from the directory name\<close>

text \<open>
  Claim C3. A superblock directory name follows \<open><order>-<name>\<close>:
  \<open>08-coding-interview-prep\<close> gives order 8 and name \<open>coding-interview-prep\<close>; \<open>extra\<close>,
  whose prefix is no number, gives order 0 and the whole name; whenever the piece
  before the first \<open>-\<close> is not read as a number by \<^verbatim>\<open>parseInt\<close>, the order is 0
  and the name is the whole directory name; and that is so for every name that starts
  with a character that is no digit, no white space (the no-break space is one) and
  no \<open>+\<close>.
\<close>

theorem superBlockInfo_convention:
  "superBlockInfo ''08-coding-interview-prep''
     = \<lparr>order = Finite 8, name = ''coding-interview-prep''\<rparr>
   \<and> superBlockInfo ''extra'' = \<lparr>order = Finite 0, name = ''extra''\<rparr>
   \<and> (\<forall>fileName. parseInt (hd (split CHR ''-'' fileName)) = NaN
         \<longrightarrow> superBlockInfo fileName = \<lparr>order = Finite 0, name = fileName\<rparr>)
   \<and> (\<forall>c rest. \<not> isDigit c \<and> \<not> isWhiteSpace c \<and> c \<noteq> CHR ''+''
         \<longrightarrow> superBlockInfo (c # rest) = \<lparr>order = Finite 0, name = c # rest\<rparr>)"
proof (intro conjI allI impI)
  have s: "split CHR ''-'' ''08-coding-interview-prep'' = [''08'', ''coding'', ''interview'', ''prep'']"
    by (simp add: split.simps)
  show "superBlockInfo ''08-coding-interview-prep''
      = \<lparr>order = Finite 8, name = ''coding-interview-prep''\<rparr>"
    by (simp add: superBlockInfo_def s parseInt_examples isNaN_def)
next
  have s: "split CHR ''-'' ''extra'' = [''extra'']"
    by (simp add: split.simps)
  show "superBlockInfo ''extra'' = \<lparr>order = Finite 0, name = ''extra''\<rparr>"
    by (simp add: superBlockInfo_def s parseInt_examples isNaN_def)
next
  fix fileName
  assume "parseInt (hd (split CHR ''-'' fileName)) = NaN"
  then show "superBlockInfo fileName = \<lparr>order = Finite 0, name = fileName\<rparr>"
    by (cases "split CHR ''-'' fileName") (simp_all add: superBlockInfo_def isNaN_def)
next
  fix c rest
  assume "\<not> isDigit c \<and> \<not> isWhiteSpace c \<and> c \<noteq> CHR ''+''"
  then show "superBlockInfo (c # rest) = \<lparr>order = Finite 0, name = c # rest\<rparr>"
    by (simp add: superBlockInfo_no_number)
qed

theorem superBlockInfo_convention_witness:
  "parseInt (hd (split CHR ''-'' ''front-end'')) = NaN
   \<and> superBlockInfo ''front-end'' = \<lparr>order = Finite 0, name = ''front-end''\<rparr>
   \<and> \<not> isDigit CHR ''x'' \<and> \<not> isWhiteSpace CHR ''x'' \<and> CHR ''x'' \<noteq> CHR ''+''
   \<and> superBlockInfo ''x1-extra'' = \<lparr>order = Finite 0, name = ''x1-extra''\<rparr>"
proof -
  have "hd (split CHR ''-'' ''front-end'') = ''front''"
    by (simp add: split.simps)
  then have h: "parseInt (hd (split CHR ''-'' ''front-end'')) = NaN"
    by (simp add: parseInt_examples)
  with superBlockInfo_convention
  have r1: "superBlockInfo ''front-end'' = \<lparr>order = Finite 0, name = ''front-end''\<rparr>"
    by blast
  have x: "\<not> isDigit CHR ''x'' \<and> \<not> isWhiteSpace CHR ''x'' \<and> CHR ''x'' \<noteq> CHR ''+''"
    by (simp add: isDigit_def isWhiteSpace_def)
  from superBlockInfo_convention
  have "\<forall>c rest. \<not> isDigit c \<and> \<not> isWhiteSpace c \<and> c \<noteq> CHR ''+''
         \<longrightarrow> superBlockInfo (c # rest) = \<lparr>order = Finite 0, name = c # rest\<rparr>"
    by simp
  from this [rule_format, of "CHR ''x''" "''1-extra''"] x
  have r2: "superBlockInfo ''x1-extra'' = \<lparr>order = Finite 0, name = ''x1-extra''\<rparr>"
    by simp
  from h r1 x r2 show ?thesis
    by simp
qed

lemma isDigit_not_dash: "isDigit d \<Longrightarrow> d \<noteq> CHR ''-''"
  by (auto simp: isDigit_def)

lemma superBlockInfo_digits_prefix:
  assumes "ds \<noteq> []" and "\<forall>d \<in> set ds. isDigit d" and "\<not> isDigit c"
      and "CHR ''-'' \<notin> set (c # rest)"
  shows "superBlockInfo (ds @ c # rest @ CHR ''-'' # remainder)
           = \<lparr>order = toNumber 1 (digitsValue ds), name = remainder\<rparr>"
proof -
  have nd: "CHR ''-'' \<notin> set (ds @ c # rest)"
    using assms isDigit_not_dash by auto
  have s: "split CHR ''-'' ((ds @ c # rest) @ CHR ''-'' # remainder)
      = (ds @ c # rest) # split CHR ''-'' remainder"
    using nd by (rule split_at_sep)
  have p: "parseInt (ds @ c # rest) = toNumber 1 (digitsValue ds)"
    using assms by (intro parseInt_digits) simp_all
  have j: "join ''-'' (split CHR ''-'' remainder) = remainder"
    by (rule join_split)
  have "superBlockInfo ((ds @ c # rest) @ CHR ''-'' # remainder)
      = \<lparr>order = toNumber 1 (digitsValue ds), name = remainder\<rparr>"
    unfolding superBlockInfo_def s by (simp add: p j isNaN_def toNumber_not_NaN)
  then show ?thesis
    by simp
qed

text \<open>
  Claim C10. A directory name without \<open>-\<close> that \<^verbatim>\<open>parseInt\<close> reads as a number gives that
  number as the order and the empty string as the name; for a name of digits only
  (such as \<open>08\<close>) the number is the double nearest to the value of the digits, which is
  that value below \<open>2^53\<close>. A name whose first piece starts with digits and goes on with
  something else (such as \<open>3rd-party\<close>) gives the number of the leading digits as the
  order and what follows the first \<open>-\<close> as the name; it does not fall back to order 0
  with the whole name. From \<open>2^53\<close> on the number is rounded as a double is: the
  leading digits \<open>9007199254740993\<close> give the order \<open>9007199254740992\<close>.
\<close>

theorem superBlockInfo_numeric_prefix:
  "(\<forall>fileName. CHR ''-'' \<notin> set fileName \<and> parseInt fileName \<noteq> NaN
       \<longrightarrow> superBlockInfo fileName = \<lparr>order = parseInt fileName, name = []\<rparr>)
   \<and> (\<forall>ds. ds \<noteq> [] \<and> (\<forall>d \<in> set ds. isDigit d)
       \<longrightarrow> superBlockInfo ds = \<lparr>order = toNumber 1 (digitsValue ds), name = []\<rparr>)
   \<and> superBlockInfo ''08'' = \<lparr>order = Finite 8, name = []\<rparr>
   \<and> (\<forall>ds c rest remainder.
         ds \<noteq> [] \<and> (\<forall>d \<in> set ds. isDigit d) \<and> \<not> isDigit c \<and> CHR ''-'' \<notin> set (c # rest)
       \<longrightarrow> superBlockInfo (ds @ c # rest @ CHR ''-'' # remainder)
             = \<lparr>order = toNumber 1 (digitsValue ds), name = remainder\<rparr>)
   \<and> (\<forall>ds. toNumber 1 (digitsValue ds) \<noteq> NaN
         \<and> (digitsValue ds < 2 ^ 53
              \<longrightarrow> toNumber 1 (digitsValue ds) = Finite (int (digitsValue ds))))
   \<and> superBlockInfo ''3rd-party'' = \<lparr>order = Finite 3, name = ''party''\<rparr>
   \<and> superBlockInfo ''9007199254740993x-y'' = \<lparr>order = Finite 9007199254740992, name = ''y''\<rparr>"
proof (intro conjI allI impI)
  fix fileName
  assume a: "CHR ''-'' \<notin> set fileName \<and> parseInt fileName \<noteq> NaN"
  then have "split CHR ''-'' fileName = [fileName]"
    by (simp add: split_no_sep)
  with a show "superBlockInfo fileName = \<lparr>order = parseInt fileName, name = []\<rparr>"
    by (simp add: superBlockInfo_def isNaN_def)
next
  fix ds
  assume a: "ds \<noteq> [] \<and> (\<forall>d \<in> set ds. isDigit d)"
  then have "CHR ''-'' \<notin> set ds"
    using isDigit_not_dash by auto
  then have s: "split CHR ''-'' ds = [ds]"
    by (simp add: split_no_sep)
  have p: "parseInt (ds @ []) = toNumber 1 (digitsValue ds)"
    using a by (intro parseInt_digits) simp_all
  show "superBlockInfo ds = \<lparr>order = toNumber 1 (digitsValue ds), name = []\<rparr>"
    using p by (simp add: superBlockInfo_def s isNaN_def toNumber_not_NaN)
next
  have s: "split CHR ''-'' ''08'' = [''08'']"
    by (simp add: split_no_sep)
  show "superBlockInfo ''08'' = \<lparr>order = Finite 8, name = []\<rparr>"
    by (simp add: superBlockInfo_def s parseInt_examples isNaN_def)
next
  fix ds c rest remainder
  assume "ds \<noteq> [] \<and> (\<forall>d \<in> set ds. isDigit d) \<and> \<not> isDigit c \<and> CHR ''-'' \<notin> set (c # rest)"
  then show "superBlockInfo (ds @ c # rest @ CHR ''-'' # remainder)
      = \<lparr>order = toNumber 1 (digitsValue ds), name = remainder\<rparr>"
    by (intro superBlockInfo_digits_prefix) simp_all
next
  fix ds
  show "toNumber 1 (digitsValue ds) \<noteq> NaN"
    by (rule toNumber_not_NaN)
next
  fix ds
  assume "digitsValue ds < 2 ^ 53"
  then show "toNumber 1 (digitsValue ds) = Finite (int (digitsValue ds))"
    by (rule toNumber_exact)
next
  have s: "split CHR ''-'' ''3rd-party'' = [''3rd'', ''party'']"
    by (simp add: split.simps)
  show "superBlockInfo ''3rd-party'' = \<lparr>order = Finite 3, name = ''party''\<rparr>"
    by (simp add: superBlockInfo_def s parseInt_examples isNaN_def)
next
  have s: "split CHR ''-'' ''9007199254740993x-y'' = [''9007199254740993x'', ''y'']"
    by (simp add: split.simps)
  show "superBlockInfo ''9007199254740993x-y''
      = \<lparr>order = Finite 9007199254740992, name = ''y''\<rparr>"
    by (simp add: superBlockInfo_def s parseInt_rounded isNaN_def)
qed

theorem superBlockInfo_numeric_prefix_witness:
  "(CHR ''-'' \<notin> set ''42'' \<and> parseInt ''42'' \<noteq> NaN
      \<and> superBlockInfo ''42'' = \<lparr>order = Finite 42, name = []\<rparr>)
   \<and> (''10'' \<noteq> [] \<and> list_all isDigit ''10'' \<and> \<not> isDigit CHR ''t'' \<and> CHR ''-'' \<notin> set ''th''
      \<and> digitsValue ''10'' < 2 ^ 53
      \<and> superBlockInfo ''10th-data-structures''
          = \<lparr>order = Finite 10, name = ''data-structures''\<rparr>)"
proof -
  have h1: "CHR ''-'' \<notin> set ''42'' \<and> parseInt ''42'' \<noteq> NaN"
    by (simp add: parseInt_examples)
  have h2: "''10'' \<noteq> [] \<and> (\<forall>d \<in> set ''10''. isDigit d) \<and> \<not> isDigit CHR ''t''
      \<and> CHR ''-'' \<notin> set (CHR ''t'' # ''h'')"
    by (simp add: isDigit_def)
  have v: "digitsValue ''10'' = 10"
    by (simp add: digitsValue_def digitValue_def)
  then have b: "digitsValue ''10'' < 2 ^ 53"
    by simp
  from superBlockInfo_numeric_prefix
  have g1: "\<forall>fileName. CHR ''-'' \<notin> set fileName \<and> parseInt fileName \<noteq> NaN
       \<longrightarrow> superBlockInfo fileName = \<lparr>order = parseInt fileName, name = []\<rparr>"
    and g3: "\<forall>ds c rest remainder.
         ds \<noteq> [] \<and> (\<forall>d \<in> set ds. isDigit d) \<and> \<not> isDigit c \<and> CHR ''-'' \<notin> set (c # rest)
       \<longrightarrow> superBlockInfo (ds @ c # rest @ CHR ''-'' # remainder)
             = \<lparr>order = toNumber 1 (digitsValue ds), name = remainder\<rparr>"
    and g4: "\<forall>ds. toNumber 1 (digitsValue ds) \<noteq> NaN
         \<and> (digitsValue ds < 2 ^ 53
              \<longrightarrow> toNumber 1 (digitsValue ds) = Finite (int (digitsValue ds)))"
    by simp_all
  from g1 h1 have r1: "superBlockInfo ''42'' = \<lparr>order = Finite 42, name = []\<rparr>"
    by (simp add: parseInt_examples)
  from g4 [rule_format, of "''10''"] b
  have n: "toNumber 1 (digitsValue ''10'') = Finite 10"
    by (simp add: v)
  from g3 [rule_format, of "''10''" "CHR ''t''" "''h''" "''data-structures''"] h2
  have r3: "superBlockInfo ''10th-data-structures''
      = \<lparr>order = Finite 10, name = ''data-structures''\<rparr>"
    by (simp add: n)
  from h1 h2 b r1 r3 show ?thesis
    by (simp add: list_all_iff)
qed

section \<open>The choice of the parser\<close>

lemma extname_not_markdown: "extname p \<noteq> ''markdown''"
  by (simp add: extname_def Let_def)

lemma isCert_False: "\<not> isCert filePath"
  by (simp add: isCert_def extname_not_markdown)

lemma parseChallenge_parseMD:
  "parseChallenge env basePath lang filePath =
     (if lang = ''english'' \<or> \<not> isAuditedCert env lang (name (superBlockInfoFromPath filePath))
      then parseMD env (getFullPath env basePath filePath ''english'')
      else parseTranslation env (getFullPath env basePath filePath ''english'')
             (getFullPath env basePath filePath lang) (COMMENT_TRANSLATIONS env) lang (parseMD env))"
  by (simp add: parseChallenge_def Let_def isCert_False)

text \<open>
  Claim C1. The kind of content is meant to be chosen by the extension of the file: a
  certificate (\<open>.markdown\<close>) goes to \<^verbatim>\<open>parseMarkdown\<close>, every other file to \<^verbatim>\<open>parseMD\<close>.
  The source compares \<^verbatim>\<open>path.extname(filePath)\<close>, which starts with the dot, with
  \<^verbatim>\<open>'markdown'\<close>: for the file \<open>cert.markdown\<close> the extension is \<open>.markdown\<close>, the file is
  not taken for a certificate, and the English challenge is parsed by \<^verbatim>\<open>parseMD\<close>. No
  path is taken for a certificate.
\<close>

theorem markdown_file_parsed_by_parseMD:
  "extname ''01-html/basic-html/cert.markdown'' = ''.markdown''
   \<and> \<not> isCert ''01-html/basic-html/cert.markdown''
   \<and> parseChallenge env basePath ''english'' ''01-html/basic-html/cert.markdown''
       = parseMD env (getFullPath env basePath ''01-html/basic-html/cert.markdown'' ''english'')
   \<and> (\<forall>filePath. \<not> isCert filePath)"
proof (intro conjI allI)
  show "extname ''01-html/basic-html/cert.markdown'' = ''.markdown''"
    by (simp add: extname_def basename_def Let_def)
  show "parseChallenge env basePath ''english'' ''01-html/basic-html/cert.markdown''
       = parseMD env (getFullPath env basePath ''01-html/basic-html/cert.markdown'' ''english'')"
    by (simp add: parseChallenge_parseMD)
qed (rule isCert_False)+

theorem markdown_file_parsed_by_parseMD_witness:
  "parseChallenge exampleEnv ''/fcc/challenges'' ''english'' ''01-html/basic-html/cert.markdown''
     = Inr (exampleParsed ''id3'' ''Parsed by parseMD'' 7 [])
   \<and> parseMarkdown exampleEnv ''/fcc/challenges/english/01-html/basic-html/cert.markdown''
     = Inr (exampleParsed ''cert'' ''Certificate'' 7 [])"
proof -
  have p: "getFullPath exampleEnv ''/fcc/challenges'' ''01-html/basic-html/cert.markdown'' ''english''
             = ''/fcc/challenges/english/01-html/basic-html/cert.markdown''"
    by (simp add: getFullPath_def exampleEnv_def exampleResolve_def)
  have "parseChallenge exampleEnv ''/fcc/challenges'' ''english'' ''01-html/basic-html/cert.markdown''
          = parseMD exampleEnv
              (getFullPath exampleEnv ''/fcc/challenges'' ''01-html/basic-html/cert.markdown'' ''english'')"
    using markdown_file_parsed_by_parseMD [of exampleEnv "''/fcc/challenges''"] by blast
  then show ?thesis
    unfolding p by (simp add: exampleEnv_def)
qed

section \<open>Files of a prepared challenge\<close>





section \<open>Translation and video challenges\<close>

lemma example_paths:
  "parseMD exampleEnv ''/fcc/challenges/english/01-html/basic-html/video.md''
     = Inr (exampleParsed ''id4'' ''Video'' 11 [''// hello''])"
  "parseMD exampleEnv ''/fcc/challenges/espanol/01-html/basic-html/video.md''
     = Inr (exampleParsed ''id4'' ''Video ES'' 11 [''// own comment''])"
  "parseMD exampleEnv ''/fcc/challenges/english/01-html/basic-html/say-hello.md''
     = Inr (exampleParsed ''id2'' ''Say Hello'' 0 [''// hello''])"
  "parseMD exampleEnv ''/fcc/challenges/espanol/01-html/basic-html/say-hello.md''
     = Inr (exampleParsed ''id2'' ''Di Hola'' 0 [''// untranslated''])"
  by (simp_all add: exampleEnv_def)

lemma example_translation:
  "translateCommentsInChallenge exampleEnv = specTranslateCommentsInChallenge"
  "mergeChallenges exampleEnv = specMergeChallenges"
  "COMMENT_TRANSLATIONS exampleEnv = [(''// hello'', [(''espanol'', ''// hola'')])]"
  by (simp_all add: exampleEnv_def)

text \<open>
  Claim C7. When both files parse: if the \<^verbatim>\<open>challengeType\<close> of the English challenge is
  11 (a video), \<^verbatim>\<open>parseTranslation\<close> does not call \<^verbatim>\<open>translateCommentsInChallenge\<close> and
  passes the English challenge to \<^verbatim>\<open>mergeChallenges\<close> as it was parsed; for every other
  type it passes the result of \<^verbatim>\<open>translateCommentsInChallenge\<close>. That much is the source.
  With the translation and the merge as the specification describes them, the merged
  challenge of a video is the translated challenge, its own comments included, and for
  every other type it is the translated challenge with the comments of the English
  file rewritten through the dictionary.
\<close>

theorem parseTranslation_video:
  assumes eng: "parse engPath = Inr engChal"
      and trans: "parse transPath = Inr transChal"
  shows "parseTranslation env engPath transPath dict lang parse =
           (if c_challengeType engChal = 11 then mergeChallenges env engChal transChal
            else (case translateCommentsInChallenge env engChal lang dict of
                    Inl e \<Rightarrow> Inl e
                  | Inr translated \<Rightarrow> mergeChallenges env translated transChal))
         \<and> (translateCommentsInChallenge env = specTranslateCommentsInChallenge
              \<and> mergeChallenges env = specMergeChallenges
            \<longrightarrow> (\<exists>merged.
                   parseTranslation env engPath transPath dict lang parse = Inr merged
                   \<and> merged = (if c_challengeType engChal = 11 then transChal
                               else transChal\<lparr>c_rest :=
                                      map (translateComment dict lang) (c_rest engChal)\<rparr>)
                   \<and> c_rest merged
                       = (if c_challengeType engChal = 11 then c_rest transChal
                          else map (translateComment dict lang) (c_rest engChal))))"
  by (simp add: parseTranslation_def eng trans specTranslateCommentsInChallenge_def
      specMergeChallenges_def)

theorem parseTranslation_video_witness:
  "parseTranslation exampleEnv
      ''/fcc/challenges/english/01-html/basic-html/say-hello.md''
      ''/fcc/challenges/espanol/01-html/basic-html/say-hello.md''
      (COMMENT_TRANSLATIONS exampleEnv) ''espanol'' (parseMD exampleEnv)
     = Inr (exampleParsed ''id2'' ''Di Hola'' 0 [''// hola''])
   \<and> parseTranslation exampleEnv
      ''/fcc/challenges/english/01-html/basic-html/video.md''
      ''/fcc/challenges/espanol/01-html/basic-html/video.md''
      (COMMENT_TRANSLATIONS exampleEnv) ''espanol'' (parseMD exampleEnv)
     = Inr (exampleParsed ''id4'' ''Video ES'' 11 [''// own comment''])"
proof
  have "\<exists>merged. parseTranslation exampleEnv
      ''/fcc/challenges/english/01-html/basic-html/say-hello.md''
      ''/fcc/challenges/espanol/01-html/basic-html/say-hello.md''
      (COMMENT_TRANSLATIONS exampleEnv) ''espanol'' (parseMD exampleEnv) = Inr merged
     \<and> merged =
       (if c_challengeType (exampleParsed ''id2'' ''Say Hello'' 0 [''// hello'']) = 11
        then exampleParsed ''id2'' ''Di Hola'' 0 [''// untranslated'']
        else (exampleParsed ''id2'' ''Di Hola'' 0 [''// untranslated''])\<lparr>c_rest :=
               map (translateComment (COMMENT_TRANSLATIONS exampleEnv) ''espanol'')
                 (c_rest (exampleParsed ''id2'' ''Say Hello'' 0 [''// hello'']))\<rparr>)
     \<and> c_rest merged =
       (if c_challengeType (exampleParsed ''id2'' ''Say Hello'' 0 [''// hello'']) = 11
        then c_rest (exampleParsed ''id2'' ''Di Hola'' 0 [''// untranslated''])
        else map (translateComment (COMMENT_TRANSLATIONS exampleEnv) ''espanol'')
               (c_rest (exampleParsed ''id2'' ''Say Hello'' 0 [''// hello''])))"
    using parseTranslation_video [where parse = "parseMD exampleEnv"
        and engPath = "''/fcc/challenges/english/01-html/basic-html/say-hello.md''"
        and transPath = "''/fcc/challenges/espanol/01-html/basic-html/say-hello.md''"
        and env = exampleEnv and dict = "COMMENT_TRANSLATIONS exampleEnv" and lang = "''espanol''",
        OF example_paths(3) example_paths(4), THEN conjunct2]
      example_translation(1) example_translation(2)
    by blast
  then show "parseTranslation exampleEnv
      ''/fcc/challenges/english/01-html/basic-html/say-hello.md''
      ''/fcc/challenges/espanol/01-html/basic-html/say-hello.md''
      (COMMENT_TRANSLATIONS exampleEnv) ''espanol'' (parseMD exampleEnv)
     = Inr (exampleParsed ''id2'' ''Di Hola'' 0 [''// hola''])"
    by (auto simp: example_translation(3) exampleParsed_def translateComment_def)
  have "\<exists>merged. parseTranslation exampleEnv
      ''/fcc/challenges/english/01-html/basic-html/video.md''
      ''/fcc/challenges/espanol/01-html/basic-html/video.md''
      (COMMENT_TRANSLATIONS exampleEnv) ''espanol'' (parseMD exampleEnv) = Inr merged
     \<and> merged =
       (if c_challengeType (exampleParsed ''id4'' ''Video'' 11 [''// hello'']) = 11
        then exampleParsed ''id4'' ''Video ES'' 11 [''// own comment'']
        else (exampleParsed ''id4'' ''Video ES'' 11 [''// own comment''])\<lparr>c_rest :=
               map (translateComment (COMMENT_TRANSLATIONS exampleEnv) ''espanol'')
                 (c_rest (exampleParsed ''id4'' ''Video'' 11 [''// hello'']))\<rparr>)
     \<and> c_rest merged =
       (if c_challengeType (exampleParsed ''id4'' ''Video'' 11 [''// hello'']) = 11
        then c_rest (exampleParsed ''id4'' ''Video ES'' 11 [''// own comment''])
        else map (translateComment (COMMENT_TRANSLATIONS exampleEnv) ''espanol'')
               (c_rest (exampleParsed ''id4'' ''Video'' 11 [''// hello''])))"
    using parseTranslation_video [where parse = "parseMD exampleEnv"
        and engPath = "''/fcc/challenges/english/01-html/basic-html/video.md''"
        and transPath = "''/fcc/challenges/espanol/01-html/basic-html/video.md''"
        and env = exampleEnv and dict = "COMMENT_TRANSLATIONS exampleEnv" and lang = "''espanol''",
        OF example_paths(1) example_paths(2), THEN conjunct2]
      example_translation(1) example_translation(2)
    by blast
  then show "parseTranslation exampleEnv
      ''/fcc/challenges/english/01-html/basic-html/video.md''
      ''/fcc/challenges/espanol/01-html/basic-html/video.md''
      (COMMENT_TRANSLATIONS exampleEnv) ''espanol'' (parseMD exampleEnv)
     = Inr (exampleParsed ''id4'' ''Video ES'' 11 [''// own comment''])"
    by (auto simp: exampleParsed_def)
qed

section \<open>The order of a challenge in its block\<close>

lemma findIndexFrom_none: "\<forall>x \<in> set xs. \<not> P x \<Longrightarrow> findIndexFrom i P xs = - 1"
  by (induction xs arbitrary: i) auto

lemma findIndexFrom_first:
  "\<exists>x \<in> set xs. P x \<Longrightarrow>
     \<exists>k < length xs. findIndexFrom i P xs = i + int k \<and> P (xs ! k) \<and> (\<forall>j < k. \<not> P (xs ! j))"
proof (induction xs arbitrary: i)
  case Nil
  then show ?case by simp
next
  case (Cons x xs)
  show ?case
  proof (cases "P x")
    case True
    then show ?thesis by (intro exI [of _ 0]) simp
  next
    case False
    with Cons.prems have "\<exists>x \<in> set xs. P x" by auto
    from Cons.IH [OF this, of "i + 1"] obtain k where
      k: "k < length xs" "findIndexFrom (i + 1) P xs = i + 1 + int k" "P (xs ! k)"
         "\<forall>j < k. \<not> P (xs ! j)"
      by blast
    have "\<forall>j < Suc k. \<not> P ((x # xs) ! j)"
    proof (intro allI impI)
      fix j assume "j < Suc k"
      then show "\<not> P ((x # xs) ! j)"
        using False k(4) by (cases j) auto
    qed
    with k False show ?thesis
      by (intro exI [of _ "Suc k"]) simp
  qed
qed

lemma createChallenge_Inr:
  assumes "createChallenge env basePath lang filePath maybeMeta = Inr challenge"
  shows "\<exists>bm parsed. resolveMeta env filePath maybeMeta = Inr bm
           \<and> parseChallenge env basePath lang filePath = Inr parsed
           \<and> prepareChallenge env (decorateChallenge env lang filePath bm parsed) = Inr challenge"
  using assms unfolding createChallenge_def
  by (auto split: sum.splits if_splits)

lemma prepareChallenge_Inr:
  assumes "prepareChallenge env d = Inr challenge"
  shows "c_id challenge = c_id d \<and> c_challengeOrder challenge = c_challengeOrder d"
  using assms unfolding prepareChallenge_def
  by (auto split: sum.splits option.splits)

lemma decorateChallenge_order:
  "c_id (decorateChallenge env lang filePath bm parsed) = c_id parsed"
  "c_challengeOrder (decorateChallenge env lang filePath bm parsed)
     = findIndex (m_challengeOrder bm) (entryHasId (c_id parsed))"
  by (simp_all add: decorateChallenge_def Let_def)

subsection \<open>The example curriculum, evaluated\<close>

lemma example_dirs:
  "challengesDir exampleEnv = ''/fcc/challenges''"
  "metaDir exampleEnv = ''/fcc/challenges/_meta''"
  by (simp_all add: challengesDir_def metaDir_def exampleEnv_def exampleResolve_def)

lemma example_block: "getBlockNameFromPath ''01-html/basic-html/say-hello.md'' = Some ''basic-html''"
  by (simp add: getBlockNameFromPath_def split.simps)

lemma example_meta:
  "resolveMeta exampleEnv ''01-html/basic-html/say-hello.md'' None = Inr exampleMeta"
proof -
  have "pathResolve exampleEnv [metaDir exampleEnv, ''./'' @ jsString (Some ''basic-html'') @ ''/meta.json'']
          = ''/fcc/challenges/_meta/basic-html/meta.json''"
    unfolding example_dirs by (simp add: exampleEnv_def exampleResolve_def jsString_def)
  then show ?thesis
    unfolding resolveMeta_def example_block by (simp add: exampleEnv_def)
qed

lemma example_full_path:
  "getFullPath exampleEnv ''/fcc/challenges'' ''01-html/basic-html/say-hello.md'' ''english''
     = ''/fcc/challenges/english/01-html/basic-html/say-hello.md''"
  "getFullPath exampleEnv ''/fcc/challenges'' ''01-html/basic-html/say-hello.md'' ''espanol''
     = ''/fcc/challenges/espanol/01-html/basic-html/say-hello.md''"
  by (simp_all add: getFullPath_def exampleEnv_def exampleResolve_def)

lemma example_english_source:
  "hasEnglishSource exampleEnv ''/fcc/challenges'' ''01-html/basic-html/say-hello.md''"
  by (simp add: hasEnglishSource_def exampleEnv_def exampleResolve_def)

lemma example_parse_english:
  "parseChallenge exampleEnv ''/fcc/challenges'' ''english'' ''01-html/basic-html/say-hello.md''
     = Inr (exampleParsed ''id2'' ''Say Hello'' 0 [''// hello''])"
  unfolding parseChallenge_parseMD example_full_path
  by (simp add: exampleEnv_def)

lemma example_prepare:
  "\<exists>challenge. prepareChallenge exampleEnv
       (decorateChallenge exampleEnv lang filePath bm (exampleParsed i t n cs)) = Inr challenge"
  by (simp add: prepareChallenge_def decorateChallenge_def exampleParsed_def Let_def
      filesToObject_def exampleEnv_def)

lemma example_created:
  "\<exists>challenge. createChallenge exampleEnv ''/fcc/challenges'' ''english''
       ''01-html/basic-html/say-hello.md'' None = Inr challenge"
proof -
  have l: "''english'' \<in> set (supportedLangs exampleEnv)"
    by (simp add: exampleEnv_def)
  show ?thesis
    unfolding createChallenge_def example_meta example_parse_english
    using l example_prepare by simp
qed

text \<open>
  Claim C9. For a challenge that \<^verbatim>\<open>createChallenge\<close> returns, \<^verbatim>\<open>challengeOrder\<close> is the
  value of \<^verbatim>\<open>findIndex\<close> over the \<^verbatim>\<open>challengeOrder\<close> list of the block metadata with the
  predicate "the first component of the entry is the id of the challenge": the index of
  the first such entry, and \<open>-1\<close> when no entry has the id. \<^verbatim>\<open>prepareChallenge\<close> leaves
  the field as it is, \<open>-1\<close> included.
\<close>

theorem challengeOrder_is_first_index:
  assumes created: "createChallenge env basePath lang filePath maybeMeta = Inr challenge"
      and resolved: "resolveMeta env filePath maybeMeta = Inr bm"
  shows "c_challengeOrder challenge
           = findIndex (m_challengeOrder bm) (entryHasId (c_id challenge))
         \<and> ((\<forall>entry \<in> set (m_challengeOrder bm). \<not> entryHasId (c_id challenge) entry)
              \<longrightarrow> c_challengeOrder challenge = - 1)
         \<and> ((\<exists>entry \<in> set (m_challengeOrder bm). entryHasId (c_id challenge) entry)
              \<longrightarrow> (\<exists>k < length (m_challengeOrder bm).
                     c_challengeOrder challenge = int k
                     \<and> entryHasId (c_id challenge) (m_challengeOrder bm ! k)
                     \<and> (\<forall>j < k. \<not> entryHasId (c_id challenge) (m_challengeOrder bm ! j))))"
proof -
  from createChallenge_Inr [OF created] resolved obtain parsed where
    p: "prepareChallenge env (decorateChallenge env lang filePath bm parsed) = Inr challenge"
    by auto
  from prepareChallenge_Inr [OF p]
  have i: "c_id challenge = c_id parsed"
    and o: "c_challengeOrder challenge
              = findIndex (m_challengeOrder bm) (entryHasId (c_id challenge))"
    by (simp_all add: decorateChallenge_order)
  show ?thesis
  proof (intro conjI impI)
    show "c_challengeOrder challenge
            = findIndex (m_challengeOrder bm) (entryHasId (c_id challenge))"
      by (rule o)
  next
    assume "\<forall>entry \<in> set (m_challengeOrder bm). \<not> entryHasId (c_id challenge) entry"
    then show "c_challengeOrder challenge = - 1"
      unfolding o findIndex_def by (rule findIndexFrom_none)
  next
    assume "\<exists>entry \<in> set (m_challengeOrder bm). entryHasId (c_id challenge) entry"
    from findIndexFrom_first [OF this, of 0]
    show "\<exists>k < length (m_challengeOrder bm).
            c_challengeOrder challenge = int k
            \<and> entryHasId (c_id challenge) (m_challengeOrder bm ! k)
            \<and> (\<forall>j < k. \<not> entryHasId (c_id challenge) (m_challengeOrder bm ! j))"
      unfolding o findIndex_def by simp
  qed
qed

theorem challengeOrder_is_first_index_witness:
  "\<exists>challenge.
     createChallenge exampleEnv ''/fcc/challenges'' ''english''
       ''01-html/basic-html/say-hello.md'' None = Inr challenge
     \<and> resolveMeta exampleEnv ''01-html/basic-html/say-hello.md'' None = Inr exampleMeta
     \<and> c_id challenge = ''id2''
     \<and> c_challengeOrder challenge = 1"
proof -
  from example_created obtain challenge where
    c: "createChallenge exampleEnv ''/fcc/challenges'' ''english''
          ''01-html/basic-html/say-hello.md'' None = Inr challenge"
    by blast
  from createChallenge_Inr [OF c] obtain parsed where
    p: "parseChallenge exampleEnv ''/fcc/challenges'' ''english'' ''01-html/basic-html/say-hello.md''
       = Inr parsed"
    and d: "prepareChallenge exampleEnv
       (decorateChallenge exampleEnv ''english'' ''01-html/basic-html/say-hello.md'' exampleMeta parsed)
       = Inr challenge"
    using example_meta by auto
  from p have "parsed = exampleParsed ''id2'' ''Say Hello'' 0 [''// hello'']"
    unfolding example_parse_english by simp
  then have "c_id parsed = ''id2''"
    by (simp add: exampleParsed_def)
  with prepareChallenge_Inr [OF d] have i: "c_id challenge = ''id2''"
    by (simp add: decorateChallenge_order(1))
  have "c_challengeOrder challenge
          = findIndex (m_challengeOrder exampleMeta) (entryHasId (c_id challenge))"
    using challengeOrder_is_first_index [OF c example_meta] by blast
  then have "c_challengeOrder challenge = 1"
    unfolding i by (simp add: findIndex_def exampleMeta_def entryHasId_def)
  with c i example_meta show ?thesis
    by (intro exI [of _ challenge]) simp
qed

section \<open>The English source of a translated challenge\<close>

lemma mentions_middle: "mentions (p @ s @ q) s"
proof -
  have "take (length s) (drop (length p) (p @ s @ q)) = s"
    by simp
  moreover have "length p \<in> set [0 ..< Suc (length (p @ s @ q))]"
    by simp
  ultimately show ?thesis
    unfolding mentions_def list_ex_iff by blast
qed

lemma mentions_subset: "mentions msg s \<Longrightarrow> set s \<subseteq> set msg"
proof -
  assume "mentions msg s"
  then obtain i where "take (length s) (drop i msg) = s"
    unfolding mentions_def list_ex_iff by blast
  then have "set s \<subseteq> set (drop i msg)"
    by (metis set_take_subset)
  then show ?thesis
    using set_drop_subset by fastforce
qed

lemma missingEnglishMessage_mentions:
  "mentions (missingEnglishMessage filePath englishPath) filePath"
  "mentions (missingEnglishMessage filePath englishPath) englishPath"
proof -
  show "mentions (missingEnglishMessage filePath englishPath) filePath"
    unfolding missingEnglishMessage_def
    using mentions_middle [of "''Missing English challenge for'' @ newline" filePath
        "newline @ ''It should be in'' @ newline @ englishPath @ newline"]
    by simp
  show "mentions (missingEnglishMessage filePath englishPath) englishPath"
    unfolding missingEnglishMessage_def
    using mentions_middle [of "''Missing English challenge for'' @ newline @ filePath @ newline
        @ ''It should be in'' @ newline" englishPath newline]
    by simp
qed

lemma notAcceptedMessage_mentions:
  "mentions (notAcceptedMessage lang filePath) lang"
  "mentions (notAcceptedMessage lang filePath) filePath"
proof -
  show "mentions (notAcceptedMessage lang filePath) lang"
    unfolding notAcceptedMessage_def
    using mentions_middle [of "[]" lang
        "'' is not a accepted language.'' @ newline @ ''  Trying to parse '' @ filePath"]
    by simp
  show "mentions (notAcceptedMessage lang filePath) filePath"
    unfolding notAcceptedMessage_def
    using mentions_middle [of "lang @ '' is not a accepted language.'' @ newline
        @ ''  Trying to parse ''" filePath "[]"]
    by simp
qed

lemma example_other_meta:
  "resolveMeta exampleEnv ''01-html/basic-html/other.md'' None = Inr exampleMeta"
proof -
  have b: "getBlockNameFromPath ''01-html/basic-html/other.md'' = Some ''basic-html''"
    by (simp add: getBlockNameFromPath_def split.simps)
  have "pathResolve exampleEnv [metaDir exampleEnv, ''./'' @ jsString (Some ''basic-html'') @ ''/meta.json'']
          = ''/fcc/challenges/_meta/basic-html/meta.json''"
    unfolding example_dirs by (simp add: exampleEnv_def exampleResolve_def jsString_def)
  then show ?thesis
    unfolding resolveMeta_def b by (simp add: exampleEnv_def)
qed

lemma example_other_source:
  "\<not> hasEnglishSource exampleEnv ''/fcc/challenges'' ''01-html/basic-html/other.md''"
  by (simp add: hasEnglishSource_def exampleEnv_def exampleResolve_def)

lemma example_other_path:
  "getFullPath exampleEnv ''/fcc/challenges'' ''01-html/basic-html/other.md'' ''english''
     = ''/fcc/challenges/english/01-html/basic-html/other.md''"
  by (simp add: getFullPath_def exampleEnv_def exampleResolve_def)

lemma example_nometa:
  "resolveMeta exampleEnv ''01-html/nometa/x.md'' None
     = Inl (Error (''Cannot find module '' @ quote @ ''/fcc/challenges/_meta/nometa/meta.json''
                     @ quote))"
  "\<not> hasEnglishSource exampleEnv ''/fcc/challenges'' ''01-html/nometa/x.md''"
proof -
  have b: "getBlockNameFromPath ''01-html/nometa/x.md'' = Some ''nometa''"
    by (simp add: getBlockNameFromPath_def split.simps)
  have "pathResolve exampleEnv [metaDir exampleEnv, ''./'' @ jsString (Some ''nometa'') @ ''/meta.json'']
          = ''/fcc/challenges/_meta/nometa/meta.json''"
    unfolding example_dirs by (simp add: exampleEnv_def exampleResolve_def jsString_def)
  then show "resolveMeta exampleEnv ''01-html/nometa/x.md'' None
     = Inl (Error (''Cannot find module '' @ quote @ ''/fcc/challenges/_meta/nometa/meta.json''
                     @ quote))"
    unfolding resolveMeta_def b by (simp add: exampleEnv_def)
  show "\<not> hasEnglishSource exampleEnv ''/fcc/challenges'' ''01-html/nometa/x.md''"
    by (simp add: hasEnglishSource_def exampleEnv_def exampleResolve_def)
qed

text \<open>
  Claim C4, as amended. For a supported language other than english and a file without
  an English counterpart whose block metadata is given or loads, \<^verbatim>\<open>createChallenge\<close>
  throws the error whose message names the path of the file and the path where the
  English file should be; when the language is english or the counterpart exists, that
  error is not thrown and the challenge is parsed. Two checks come before the one of the
  English source. When the metadata is not given and does not load, the error of
  \<^verbatim>\<open>require\<close> is thrown. When the language is not supported, the error thrown is the
  one of that check, whose message names the language and the path of the file. The last
  theorem of this section evaluates both: there the English counterpart is missing and
  the message does not name the English path, or the path of the file.
\<close>

theorem missing_english_source_error:
  "(\<forall>bm. resolveMeta env filePath maybeMeta = Inr bm \<longrightarrow>
      (lang \<in> set (supportedLangs env) \<and> lang \<noteq> ''english''
            \<and> \<not> hasEnglishSource env basePath filePath
          \<longrightarrow> createChallenge env basePath lang filePath maybeMeta
                = Inl (Error (missingEnglishMessage filePath
                                (getFullPath env basePath filePath ''english'')))
              \<and> mentions (missingEnglishMessage filePath
                            (getFullPath env basePath filePath ''english'')) filePath
              \<and> mentions (missingEnglishMessage filePath
                            (getFullPath env basePath filePath ''english''))
                   (getFullPath env basePath filePath ''english''))
      \<and> (lang \<in> set (supportedLangs env)
            \<and> (lang = ''english'' \<or> hasEnglishSource env basePath filePath)
          \<longrightarrow> createChallenge env basePath lang filePath maybeMeta
                = (case parseChallenge env basePath lang filePath of
                     Inl e \<Rightarrow> Inl e
                   | Inr parsed \<Rightarrow>
                       prepareChallenge env (decorateChallenge env lang filePath bm parsed)))
      \<and> (lang \<notin> set (supportedLangs env)
          \<longrightarrow> createChallenge env basePath lang filePath maybeMeta
                = Inl (Error (notAcceptedMessage lang filePath))
              \<and> mentions (notAcceptedMessage lang filePath) lang
              \<and> mentions (notAcceptedMessage lang filePath) filePath))
   \<and> (\<forall>e. resolveMeta env filePath maybeMeta = Inl e
         \<longrightarrow> createChallenge env basePath lang filePath maybeMeta = Inl e)"
  unfolding createChallenge_def
  by (auto simp: missingEnglishMessage_mentions notAcceptedMessage_mentions)

theorem missing_english_source_error_witness:
  "resolveMeta exampleEnv ''01-html/basic-html/other.md'' None = Inr exampleMeta
   \<and> ''espanol'' \<in> set (supportedLangs exampleEnv)
   \<and> ''espanol'' \<noteq> ''english''
   \<and> \<not> hasEnglishSource exampleEnv ''/fcc/challenges'' ''01-html/basic-html/other.md''
   \<and> createChallenge exampleEnv ''/fcc/challenges'' ''espanol'' ''01-html/basic-html/other.md'' None
       = Inl (Error (missingEnglishMessage ''01-html/basic-html/other.md''
                       ''/fcc/challenges/english/01-html/basic-html/other.md''))"
proof -
  have l: "''espanol'' \<in> set (supportedLangs exampleEnv)"
    by (simp add: exampleEnv_def)
  have n: "''espanol'' \<noteq> ''english''"
    by simp
  have "createChallenge exampleEnv ''/fcc/challenges'' ''espanol'' ''01-html/basic-html/other.md'' None
       = Inl (Error (missingEnglishMessage ''01-html/basic-html/other.md''
           (getFullPath exampleEnv ''/fcc/challenges'' ''01-html/basic-html/other.md'' ''english'')))"
    using missing_english_source_error [of exampleEnv "''01-html/basic-html/other.md''" None
        "''espanol''" "''/fcc/challenges''"] example_other_meta l n example_other_source
    by blast
  with l n example_other_meta example_other_source show ?thesis
    unfolding example_other_path by simp
qed

theorem missing_english_error_preceded:
  "''klingon'' \<noteq> ''english''
   \<and> \<not> hasEnglishSource exampleEnv ''/fcc/challenges'' ''01-html/basic-html/other.md''
   \<and> createChallenge exampleEnv ''/fcc/challenges'' ''klingon'' ''01-html/basic-html/other.md'' None
       = Inl (Error (notAcceptedMessage ''klingon'' ''01-html/basic-html/other.md''))
   \<and> \<not> mentions (notAcceptedMessage ''klingon'' ''01-html/basic-html/other.md'')
         (getFullPath exampleEnv ''/fcc/challenges'' ''01-html/basic-html/other.md'' ''english'')
   \<and> ''espanol'' \<in> set (supportedLangs exampleEnv)
   \<and> ''espanol'' \<noteq> ''english''
   \<and> \<not> hasEnglishSource exampleEnv ''/fcc/challenges'' ''01-html/nometa/x.md''
   \<and> createChallenge exampleEnv ''/fcc/challenges'' ''espanol'' ''01-html/nometa/x.md'' None
       = Inl (Error (''Cannot find module '' @ quote @ ''/fcc/challenges/_meta/nometa/meta.json''
                       @ quote))
   \<and> \<not> mentions (''Cannot find module '' @ quote @ ''/fcc/challenges/_meta/nometa/meta.json''
                    @ quote) ''01-html/nometa/x.md''"
proof -
  have l: "''klingon'' \<notin> set (supportedLangs exampleEnv)"
    by (simp add: exampleEnv_def)
  have c: "createChallenge exampleEnv ''/fcc/challenges'' ''klingon'' ''01-html/basic-html/other.md'' None
       = Inl (Error (notAcceptedMessage ''klingon'' ''01-html/basic-html/other.md''))"
    unfolding createChallenge_def example_other_meta using l by simp
  have "\<not> set ''/fcc/challenges/english/01-html/basic-html/other.md''
          \<subseteq> set (notAcceptedMessage ''klingon'' ''01-html/basic-html/other.md'')"
    by (simp add: notAcceptedMessage_def newline_def)
  then have m: "\<not> mentions (notAcceptedMessage ''klingon'' ''01-html/basic-html/other.md'')
         ''/fcc/challenges/english/01-html/basic-html/other.md''"
    using mentions_subset by blast
  have s: "''espanol'' \<in> set (supportedLangs exampleEnv)"
    by (simp add: exampleEnv_def)
  have c2: "createChallenge exampleEnv ''/fcc/challenges'' ''espanol'' ''01-html/nometa/x.md'' None
       = Inl (Error (''Cannot find module '' @ quote @ ''/fcc/challenges/_meta/nometa/meta.json''
                       @ quote))"
    unfolding createChallenge_def example_nometa(1) by simp
  have "\<not> set ''01-html/nometa/x.md''
          \<subseteq> set (''Cannot find module '' @ quote @ ''/fcc/challenges/_meta/nometa/meta.json''
                    @ quote)"
    by (simp add: quote_def)
  then have m2: "\<not> mentions (''Cannot find module '' @ quote
          @ ''/fcc/challenges/_meta/nometa/meta.json'' @ quote) ''01-html/nometa/x.md''"
    using mentions_subset by blast
  from c m example_other_source s c2 m2 example_nometa(2) show ?thesis
    unfolding example_other_path by simp
qed

section \<open>The flag of a block\<close>

lemma typeof_boolean: "(typeof v = ''boolean'') = (\<exists>b. v = JBool b)"
  by (cases v) (simp_all add: typeof_def)

lemma missingUpcomingMessage_mentions: "mentions (missingUpcomingMessage metaPath) metaPath"
  unfolding missingUpcomingMessage_def
  using mentions_middle [of "''meta file at ''" metaPath
      "'' is missing 'isUpcomingChange', it must be 'true' or 'false'' @ quote"]
  by simp

lemma example_meta_paths:
  "blockMetaPath exampleEnv (Some ''flagless'') = ''/fcc/challenges/_meta/flagless/meta.json''"
  "blockMetaPath exampleEnv (Some ''upcoming'') = ''/fcc/challenges/_meta/upcoming/meta.json''"
  "blockMetaPath exampleEnv (Some ''basic-html'') = ''/fcc/challenges/_meta/basic-html/meta.json''"
  by (simp_all add: blockMetaPath_def exampleEnv_def exampleResolve_def jsString_def)

lemma example_blocks:
  "getBlockNameFromPath ''01-html/flagless'' = Some ''flagless''"
  "getBlockNameFromPath ''01-html/upcoming'' = Some ''upcoming''"
  "getBlockNameFromPath ''01-html/upcoming/soon.md'' = Some ''upcoming''"
  "getBlockNameFromPath ''01-html/basic-html'' = Some ''basic-html''"
  "getBlockNameFromPath ''01-html'' = None"
  by (simp_all add: getBlockNameFromPath_def split.simps)

lemma example_required_meta:
  "requireMeta exampleEnv ''/fcc/challenges/_meta/flagless/meta.json'' = Inr flaglessMeta"
  "requireMeta exampleEnv ''/fcc/challenges/_meta/upcoming/meta.json'' = Inr upcomingMeta"
  "requireMeta exampleEnv ''/fcc/challenges/_meta/basic-html/meta.json'' = Inr exampleMeta"
  by (simp_all add: exampleEnv_def)

text \<open>
  Claim C8. For a block directory (a directory at depth 2) whose metadata file loads:
  when \<^verbatim>\<open>isUpcomingChange\<close> is not of type boolean (absent, or a value of another type),
  \<^verbatim>\<open>buildCurriculum\<close> throws the error whose message names the path of the metadata
  file; when it is \<^verbatim>\<open>true\<close> or \<^verbatim>\<open>false\<close>, no \<^verbatim>\<open>Error\<close> is thrown for that directory.
\<close>

theorem block_without_boolean_flag:
  assumes depth: "f_depth file = 2"
      and dir: "f_isDirectory file"
      and loaded: "requireMeta env (blockMetaPath env (getBlockNameFromPath (f_path file))) = Inr bm"
  shows "(typeof (m_isUpcomingChange bm) \<noteq> ''boolean''
          \<longrightarrow> buildCurriculum env file curriculum lang
                = Inl (Error (missingUpcomingMessage
                                (blockMetaPath env (getBlockNameFromPath (f_path file)))))
              \<and> mentions (missingUpcomingMessage
                            (blockMetaPath env (getBlockNameFromPath (f_path file))))
                   (blockMetaPath env (getBlockNameFromPath (f_path file))))
         \<and> (typeof (m_isUpcomingChange bm) = ''boolean''
          \<longrightarrow> (\<forall>msg. buildCurriculum env file curriculum lang \<noteq> Inl (Error msg)))
         \<and> (typeof (m_isUpcomingChange bm) = ''boolean'')
             = (m_isUpcomingChange bm = JBool True \<or> m_isUpcomingChange bm = JBool False)"
proof (intro conjI impI allI)
  assume "typeof (m_isUpcomingChange bm) \<noteq> ''boolean''"
  then show "buildCurriculum env file curriculum lang
                = Inl (Error (missingUpcomingMessage
                                (blockMetaPath env (getBlockNameFromPath (f_path file)))))"
    unfolding buildCurriculum_def using depth dir loaded by (simp add: Let_def)
next
  show "mentions (missingUpcomingMessage
                            (blockMetaPath env (getBlockNameFromPath (f_path file))))
                   (blockMetaPath env (getBlockNameFromPath (f_path file)))"
    by (rule missingUpcomingMessage_mentions)
next
  fix msg
  assume "typeof (m_isUpcomingChange bm) = ''boolean''"
  then show "buildCurriculum env file curriculum lang \<noteq> Inl (Error msg)"
    unfolding buildCurriculum_def using depth dir loaded
    by (simp add: Let_def split: option.split)
next
  show "(typeof (m_isUpcomingChange bm) = ''boolean'')
          = (m_isUpcomingChange bm = JBool True \<or> m_isUpcomingChange bm = JBool False)"
    unfolding typeof_boolean by (metis (full_types))
qed

theorem block_without_boolean_flag_witness:
  "f_depth flaglessDir = 2 \<and> f_isDirectory flaglessDir
   \<and> requireMeta exampleEnv (blockMetaPath exampleEnv (getBlockNameFromPath (f_path flaglessDir)))
       = Inr flaglessMeta
   \<and> typeof (m_isUpcomingChange flaglessMeta) \<noteq> ''boolean''
   \<and> buildCurriculum exampleEnv flaglessDir htmlCurriculum ''english''
       = Inl (Error (missingUpcomingMessage ''/fcc/challenges/_meta/flagless/meta.json''))
   \<and> f_depth basicHtmlDir = 2 \<and> f_isDirectory basicHtmlDir
   \<and> requireMeta exampleEnv (blockMetaPath exampleEnv (getBlockNameFromPath (f_path basicHtmlDir)))
       = Inr exampleMeta
   \<and> typeof (m_isUpcomingChange exampleMeta) = ''boolean''
   \<and> buildCurriculum exampleEnv basicHtmlDir htmlCurriculum ''english''
       \<noteq> Inl (Error (missingUpcomingMessage ''/fcc/challenges/_meta/basic-html/meta.json''))"
proof -
  have f: "f_depth flaglessDir = 2" "f_isDirectory flaglessDir"
    "f_path flaglessDir = ''01-html/flagless''"
    by (simp_all add: flaglessDir_def)
  have fm: "requireMeta exampleEnv
      (blockMetaPath exampleEnv (getBlockNameFromPath (f_path flaglessDir))) = Inr flaglessMeta"
    unfolding f(3) example_blocks example_meta_paths by (rule example_required_meta)
  have ft: "typeof (m_isUpcomingChange flaglessMeta) \<noteq> ''boolean''"
    by (simp add: flaglessMeta_def typeof_def)
  have b: "f_depth basicHtmlDir = 2" "f_isDirectory basicHtmlDir"
    "f_path basicHtmlDir = ''01-html/basic-html''"
    by (simp_all add: basicHtmlDir_def)
  have bm: "requireMeta exampleEnv
      (blockMetaPath exampleEnv (getBlockNameFromPath (f_path basicHtmlDir))) = Inr exampleMeta"
    unfolding b(3) example_blocks example_meta_paths by (rule example_required_meta)
  have bt: "typeof (m_isUpcomingChange exampleMeta) = ''boolean''"
    by (simp add: exampleMeta_def typeof_def)
  have r1: "buildCurriculum exampleEnv flaglessDir htmlCurriculum ''english''
       = Inl (Error (missingUpcomingMessage
           (blockMetaPath exampleEnv (getBlockNameFromPath (f_path flaglessDir)))))"
    using block_without_boolean_flag [OF f(1) f(2) fm, of htmlCurriculum "''english''"] ft
    by blast
  have r2: "buildCurriculum exampleEnv basicHtmlDir htmlCurriculum ''english''
       \<noteq> Inl (Error (missingUpcomingMessage ''/fcc/challenges/_meta/basic-html/meta.json''))"
    using block_without_boolean_flag [OF b(1) b(2) bm, of htmlCurriculum "''english''"] bt
    by blast
  from r1 have r1': "buildCurriculum exampleEnv flaglessDir htmlCurriculum ''english''
       = Inl (Error (missingUpcomingMessage ''/fcc/challenges/_meta/flagless/meta.json''))"
    unfolding f(3) example_blocks example_meta_paths .
  from f(1) f(2) fm ft r1' b(1) b(2) bm bt r2 show ?thesis
    by blast
qed

section \<open>Blocks that are upcoming changes\<close>

lemma walked_depth_1: "walked file \<Longrightarrow> f_depth file = 1 \<Longrightarrow> getBlockNameFromPath (f_path file) = None"
  unfolding walked_def getBlockNameFromPath_def
  by (cases "split CHR ''/'' (f_path file)") (auto split: list.split)

lemma walked_depth_2:
  "walked file \<Longrightarrow> f_depth file = 2 \<Longrightarrow> getBlockNameFromPath (f_path file) = Some (f_name file)"
  unfolding walked_def getBlockNameFromPath_def
  by (cases "split CHR ''/'' (f_path file)") (auto split: list.split)

lemma upcoming_dir_skipped:
  assumes "requireMeta env (blockMetaPath env (Some b)) = Inr bm"
      and "m_isUpcomingChange bm = JBool True"
      and "SHOW_UPCOMING_CHANGES env = None"
      and "f_depth file = 2" and "f_isDirectory file"
      and "getBlockNameFromPath (f_path file) = Some b"
  shows "buildCurriculum env file curriculum lang = Inr curriculum"
  unfolding buildCurriculum_def using assms
  by (simp add: Let_def typeof_def truthy_def)

lemma excluded_leaf_skipped:
  assumes "\<not> (f_depth file = 1 \<and> f_isDirectory file)"
      and "\<not> (f_depth file = 2 \<and> f_isDirectory file)"
      and "getBlockNameFromPath (f_path file) = Some b"
      and "curriculum (name (superBlockInfoFromPath (f_path file))) = Some sb"
      and "blocks sb b = None"
      and "b \<notin> set objectPrototypeKeys"
  shows "buildCurriculum env file curriculum lang = Inr curriculum"
  unfolding buildCurriculum_def using assms
  by (auto simp: Let_def jsString_def)

lemma inherited_leaf_fails:
  assumes "\<not> f_isDirectory file"
      and "f_name file \<noteq> ''meta.json''" and "f_name file \<noteq> ''.DS_Store''"
      and "getBlockNameFromPath (f_path file) = Some b"
      and "curriculum (name (superBlockInfoFromPath (f_path file))) = Some sb"
      and "blocks sb b = None"
      and "b \<in> set objectPrototypeKeys"
  shows "buildCurriculum env file curriculum lang =
           (case createChallenge env (challengesDir env) lang (f_path file) None of
              Inl e \<Rightarrow> Inl e
            | Inr challenge \<Rightarrow> Inl TypeError)"
  unfolding buildCurriculum_def using assms
  by (simp add: Let_def jsString_def)

lemma noBlock_step_same:
  assumes meta: "requireMeta env (blockMetaPath env (Some b)) = Inr bm"
      "m_isUpcomingChange bm = JBool True" "SHOW_UPCOMING_CHANGES env = None"
      and w: "walked file"
      and nb: "noBlock b curriculum"
      and blk: "getBlockNameFromPath (f_path file) = Some b"
      and step: "buildCurriculum env file curriculum lang = Inr curriculum'"
  shows "curriculum' = curriculum"
proof (cases "f_depth file = 1 \<and> f_isDirectory file")
  case True
  with walked_depth_1 [OF w] blk show ?thesis by simp
next
  case d1: False
  show ?thesis
  proof (cases "f_depth file = 2 \<and> f_isDirectory file")
    case True
    with upcoming_dir_skipped [OF meta _ _ blk, of curriculum lang] step show ?thesis
      by simp
  next
    case d2: False
    show ?thesis
    proof (cases "curriculum (name (superBlockInfoFromPath (f_path file)))")
      case None
      with d1 d2 step blk show ?thesis
        unfolding buildCurriculum_def by (simp add: Let_def split: if_splits)
    next
      case (Some sb)
      with nb have e: "blocks sb b = None"
        unfolding noBlock_def by blast
      from d1 d2 blk Some e step show ?thesis
        unfolding buildCurriculum_def
        by (auto simp: Let_def jsString_def split: if_splits sum.splits)
    qed
  qed
qed

lemma noBlock_step_other:
  assumes w: "walked file"
      and nb: "noBlock b curriculum"
      and blk: "getBlockNameFromPath (f_path file) \<noteq> Some b"
      and step: "buildCurriculum env file curriculum lang = Inr curriculum'"
  shows "noBlock b curriculum'"
proof (cases "f_depth file = 1 \<and> f_isDirectory file")
  case True
  with step have "curriculum' = curriculum(name (superBlockInfo (f_name file)) \<mapsto>
      \<lparr>superBlock = name (superBlockInfo (f_name file)),
       sb_order = order (superBlockInfo (f_name file)), blocks = Map.empty\<rparr>)"
    unfolding buildCurriculum_def by (simp add: Let_def split: if_splits)
  with nb show ?thesis
    unfolding noBlock_def by (auto split: if_splits)
next
  case d1: False
  show ?thesis
  proof (cases "f_depth file = 2 \<and> f_isDirectory file")
    case True
    with walked_depth_2 [OF w] blk have n: "f_name file \<noteq> b"
      by auto
    from True d1 step have
      "curriculum' = curriculum
       \<or> (\<exists>sb bi. curriculum (name (superBlockInfoFromPath (f_path file))) = Some sb
            \<and> curriculum' = curriculum(name (superBlockInfoFromPath (f_path file)) \<mapsto>
                  sb\<lparr>blocks := (blocks sb)(f_name file \<mapsto> bi)\<rparr>))"
      unfolding buildCurriculum_def
      by (auto simp: Let_def split: sum.splits if_splits option.splits)
    with nb n show ?thesis
      unfolding noBlock_def by (auto split: if_splits)
  next
    case d2: False
    from d1 d2 step have
      "curriculum' = curriculum
       \<or> (\<exists>sb bi bi'. curriculum (name (superBlockInfoFromPath (f_path file))) = Some sb
            \<and> blocks sb (jsString (getBlockNameFromPath (f_path file))) = Some bi
            \<and> curriculum' = curriculum(name (superBlockInfoFromPath (f_path file)) \<mapsto>
                  sb\<lparr>blocks := (blocks sb)(jsString (getBlockNameFromPath (f_path file)) \<mapsto> bi')\<rparr>))"
      unfolding buildCurriculum_def
      by (auto simp: Let_def split: sum.splits if_splits option.splits)
    then show ?thesis
    proof
      assume "curriculum' = curriculum"
      with nb show ?thesis by simp
    next
      assume "\<exists>sb bi bi'. curriculum (name (superBlockInfoFromPath (f_path file))) = Some sb
            \<and> blocks sb (jsString (getBlockNameFromPath (f_path file))) = Some bi
            \<and> curriculum' = curriculum(name (superBlockInfoFromPath (f_path file)) \<mapsto>
                  sb\<lparr>blocks := (blocks sb)(jsString (getBlockNameFromPath (f_path file)) \<mapsto> bi')\<rparr>)"
      then obtain sb bi bi' where
        s: "curriculum (name (superBlockInfoFromPath (f_path file))) = Some sb"
        and k: "blocks sb (jsString (getBlockNameFromPath (f_path file))) = Some bi"
        and c: "curriculum' = curriculum(name (superBlockInfoFromPath (f_path file)) \<mapsto>
                  sb\<lparr>blocks := (blocks sb)(jsString (getBlockNameFromPath (f_path file)) \<mapsto> bi')\<rparr>)"
        by blast
      from nb s have e: "blocks sb b = None"
        unfolding noBlock_def by blast
      with k have "jsString (getBlockNameFromPath (f_path file)) \<noteq> b"
        by auto
      with nb c e show ?thesis
        unfolding noBlock_def by (auto split: if_splits)
    qed
  qed
qed

lemma buildAll_without_block:
  assumes meta: "requireMeta env (blockMetaPath env (Some b)) = Inr bm"
      "m_isUpcomingChange bm = JBool True" "SHOW_UPCOMING_CHANGES env = None"
  shows "list_all walked files \<Longrightarrow> noBlock b curriculum
     \<Longrightarrow> buildAll env lang files curriculum = Inr curriculum'
     \<Longrightarrow> noBlock b curriculum'
         \<and> buildAll env lang
             (filter (\<lambda>file. getBlockNameFromPath (f_path file) \<noteq> Some b) files) curriculum
           = Inr curriculum'"
proof (induction files arbitrary: curriculum)
  case Nil
  then show ?case by simp
next
  case (Cons entry files)
  from Cons.prems(3) obtain c1 where
    s: "buildCurriculum env entry curriculum lang = Inr c1"
    and r: "buildAll env lang files c1 = Inr curriculum'"
    by (auto split: sum.splits)
  from Cons.prems(1) have w: "walked entry" and ws: "list_all walked files"
    by simp_all
  show ?case
  proof (cases "getBlockNameFromPath (f_path entry) = Some b")
    case True
    from noBlock_step_same [OF meta w Cons.prems(2) True s] have "c1 = curriculum" .
    with Cons.IH [OF ws Cons.prems(2)] r True show ?thesis
      by simp
  next
    case False
    from noBlock_step_other [OF w Cons.prems(2) False s] have "noBlock b c1" .
    from Cons.IH [OF ws this r] False s show ?thesis
      by simp
  qed
qed

lemma example_superblock:
  "superBlockInfo ''01-html'' = \<lparr>order = Finite 1, name = ''html''\<rparr>"
  "superBlockInfoFromPath ''01-html/upcoming'' = \<lparr>order = Finite 1, name = ''html''\<rparr>"
  "superBlockInfoFromPath ''01-html/upcoming/soon.md'' = \<lparr>order = Finite 1, name = ''html''\<rparr>"
  "superBlockInfoFromPath ''01-html/constructor'' = \<lparr>order = Finite 1, name = ''html''\<rparr>"
  "superBlockInfoFromPath ''01-html/constructor/soon.md'' = \<lparr>order = Finite 1, name = ''html''\<rparr>"
proof -
  have s: "split CHR ''-'' ''01-html'' = [''01'', ''html'']"
    by (simp add: split.simps)
  show i: "superBlockInfo ''01-html'' = \<lparr>order = Finite 1, name = ''html''\<rparr>"
    by (simp add: superBlockInfo_def s parseInt_examples isNaN_def)
  have "split CHR ''/'' ''01-html/upcoming'' = [''01-html'', ''upcoming'']"
    by (simp add: split.simps)
  then show "superBlockInfoFromPath ''01-html/upcoming'' = \<lparr>order = Finite 1, name = ''html''\<rparr>"
    by (simp add: superBlockInfoFromPath_def i)
  have "split CHR ''/'' ''01-html/upcoming/soon.md'' = [''01-html'', ''upcoming'', ''soon.md'']"
    by (simp add: split.simps)
  then show "superBlockInfoFromPath ''01-html/upcoming/soon.md''
      = \<lparr>order = Finite 1, name = ''html''\<rparr>"
    by (simp add: superBlockInfoFromPath_def i)
  have "split CHR ''/'' ''01-html/constructor'' = [''01-html'', ''constructor'']"
    by (simp add: split.simps)
  then show "superBlockInfoFromPath ''01-html/constructor'' = \<lparr>order = Finite 1, name = ''html''\<rparr>"
    by (simp add: superBlockInfoFromPath_def i)
  have "split CHR ''/'' ''01-html/constructor/soon.md'' = [''01-html'', ''constructor'', ''soon.md'']"
    by (simp add: split.simps)
  then show "superBlockInfoFromPath ''01-html/constructor/soon.md''
      = \<lparr>order = Finite 1, name = ''html''\<rparr>"
    by (simp add: superBlockInfoFromPath_def i)
qed

lemma example_walked:
  "list_all walked [htmlDir, upcomingDir, upcomingLeaf]"
  "list_all walked [htmlDir, constructorDir, constructorLeaf]"
  by (simp_all add: walked_def htmlDir_def upcomingDir_def upcomingLeaf_def constructorDir_def
      constructorLeaf_def split.simps)

lemma example_html_step:
  "buildCurriculum exampleEnv htmlDir emptyCurriculum ''english'' = Inr htmlCurriculum"
  by (simp add: buildCurriculum_def htmlDir_def example_superblock Let_def
      emptyCurriculum_def htmlCurriculum_def)

lemma example_constructor_block:
  "getBlockNameFromPath ''01-html/constructor'' = Some ''constructor''"
  "getBlockNameFromPath ''01-html/constructor/soon.md'' = Some ''constructor''"
  "blockMetaPath exampleEnv (Some ''constructor'') = ''/fcc/challenges/_meta/constructor/meta.json''"
  "requireMeta exampleEnv ''/fcc/challenges/_meta/constructor/meta.json'' = Inr constructorMeta"
  by (simp_all add: getBlockNameFromPath_def split.simps blockMetaPath_def exampleEnv_def
      exampleResolve_def jsString_def)

lemma example_constructor_created:
  "\<exists>challenge. createChallenge exampleEnv (challengesDir exampleEnv) ''english''
       ''01-html/constructor/soon.md'' None = Inr challenge"
proof -
  have "pathResolve exampleEnv
          [metaDir exampleEnv, ''./'' @ jsString (Some ''constructor'') @ ''/meta.json'']
          = ''/fcc/challenges/_meta/constructor/meta.json''"
    unfolding example_dirs by (simp add: exampleEnv_def exampleResolve_def jsString_def)
  then have m: "resolveMeta exampleEnv ''01-html/constructor/soon.md'' None = Inr constructorMeta"
    unfolding resolveMeta_def example_constructor_block by (simp add: exampleEnv_def)
  have l: "''english'' \<in> set (supportedLangs exampleEnv)"
    by (simp add: exampleEnv_def)
  have "getFullPath exampleEnv ''/fcc/challenges'' ''01-html/constructor/soon.md'' ''english''
          = ''/fcc/challenges/english/01-html/constructor/soon.md''"
    by (simp add: getFullPath_def exampleEnv_def exampleResolve_def)
  then have p: "parseChallenge exampleEnv ''/fcc/challenges'' ''english''
      ''01-html/constructor/soon.md'' = Inr (exampleParsed ''id5'' ''Soon'' 0 [])"
    unfolding parseChallenge_parseMD by (simp add: exampleEnv_def)
  show ?thesis
    unfolding createChallenge_def example_dirs m p
    using l example_prepare by simp
qed

text \<open>
  Claim C2. For a block whose metadata has \<^verbatim>\<open>isUpcomingChange\<close> equal to \<^verbatim>\<open>true\<close>, with
  \<^verbatim>\<open>SHOW_UPCOMING_CHANGES\<close> unset: the directory of the block leaves the curriculum as
  it is (the block is not added to its superblock); over a whole walk that starts
  without the block and ends without an error, the curriculum built has no block of
  that name in any superblock and is the curriculum that the walk without the entries
  of the block builds, so that no challenge of the block is in it. The entries are
  handled in the order of the walk; the part of \<^verbatim>\<open>buildCurriculum\<close> after its \<^verbatim>\<open>await\<close>
  only appends to a block that was found.

  A challenge file of the block, its superblock being in the curriculum and the block
  not, is meant to be skipped (the comment at line 187), and it is, with the curriculum
  left as it is and nothing thrown, when the name of the block is not the name of a
  property that every object inherits. When it is one (\<open>constructor\<close>, \<open>toString\<close>, ...)
  the lookup at line 185 finds the inherited value, the file is not skipped, and the
  step ends in an error: the one of \<^verbatim>\<open>createChallenge\<close>, or the \<^verbatim>\<open>TypeError\<close> of line
  199.
\<close>

theorem upcoming_block_not_in_curriculum:
  assumes loaded: "requireMeta (env :: ('r, 'q, 'x) env) (blockMetaPath env (Some b)) = Inr bm"
      and upcoming: "m_isUpcomingChange bm = JBool True"
      and unset: "SHOW_UPCOMING_CHANGES env = None"
  shows "(\<forall>file curriculum.
            f_depth file = 2 \<and> f_isDirectory file \<and> getBlockNameFromPath (f_path file) = Some b
            \<longrightarrow> buildCurriculum env file curriculum lang = Inr curriculum)
         \<and> (\<forall>file curriculum sb.
            \<not> f_isDirectory file \<and> f_name file \<noteq> ''meta.json'' \<and> f_name file \<noteq> ''.DS_Store''
              \<and> getBlockNameFromPath (f_path file) = Some b
              \<and> curriculum (name (superBlockInfoFromPath (f_path file))) = Some sb
              \<and> blocks sb b = None
              \<and> b \<notin> set objectPrototypeKeys
            \<longrightarrow> buildCurriculum env file curriculum lang = Inr curriculum)
         \<and> (\<forall>file curriculum sb.
            \<not> f_isDirectory file \<and> f_name file \<noteq> ''meta.json'' \<and> f_name file \<noteq> ''.DS_Store''
              \<and> getBlockNameFromPath (f_path file) = Some b
              \<and> curriculum (name (superBlockInfoFromPath (f_path file))) = Some sb
              \<and> blocks sb b = None
              \<and> b \<in> set objectPrototypeKeys
            \<longrightarrow> buildCurriculum env file curriculum lang
                  = (case createChallenge env (challengesDir env) lang (f_path file) None of
                       Inl e \<Rightarrow> Inl e
                     | Inr challenge \<Rightarrow> Inl TypeError)
                \<and> (\<exists>e. buildCurriculum env file curriculum lang = Inl e))
         \<and> (\<forall>files curriculum curriculum'.
            list_all walked files \<and> noBlock b curriculum
              \<and> buildAll env lang files curriculum = Inr curriculum'
            \<longrightarrow> noBlock b curriculum'
                \<and> buildAll env lang
                    (filter (\<lambda>file. getBlockNameFromPath (f_path file) \<noteq> Some b) files)
                    curriculum
                  = Inr curriculum')"
proof (intro conjI allI impI)
  fix entry :: walkEntry and curriculum :: "('r, 'q, 'x) curriculum"
  assume "f_depth entry = 2 \<and> f_isDirectory entry \<and> getBlockNameFromPath (f_path entry) = Some b"
  then show "buildCurriculum env entry curriculum lang = Inr curriculum"
    using upcoming_dir_skipped [OF loaded upcoming unset] by blast
next
  fix entry :: walkEntry and curriculum :: "('r, 'q, 'x) curriculum" and sb
  assume a: "\<not> f_isDirectory entry \<and> f_name entry \<noteq> ''meta.json'' \<and> f_name entry \<noteq> ''.DS_Store''
              \<and> getBlockNameFromPath (f_path entry) = Some b
              \<and> curriculum (name (superBlockInfoFromPath (f_path entry))) = Some sb
              \<and> blocks sb b = None
              \<and> b \<notin> set objectPrototypeKeys"
  then show "buildCurriculum env entry curriculum lang = Inr curriculum"
    using excluded_leaf_skipped [of entry b curriculum sb env lang] by blast
next
  fix entry :: walkEntry and curriculum :: "('r, 'q, 'x) curriculum" and sb
  assume a: "\<not> f_isDirectory entry \<and> f_name entry \<noteq> ''meta.json'' \<and> f_name entry \<noteq> ''.DS_Store''
              \<and> getBlockNameFromPath (f_path entry) = Some b
              \<and> curriculum (name (superBlockInfoFromPath (f_path entry))) = Some sb
              \<and> blocks sb b = None
              \<and> b \<in> set objectPrototypeKeys"
  then show "buildCurriculum env entry curriculum lang
      = (case createChallenge env (challengesDir env) lang (f_path entry) None of
           Inl e \<Rightarrow> Inl e
         | Inr challenge \<Rightarrow> Inl TypeError)"
    using inherited_leaf_fails [of entry b curriculum sb env lang] by blast
next
  fix entry :: walkEntry and curriculum :: "('r, 'q, 'x) curriculum" and sb
  assume a: "\<not> f_isDirectory entry \<and> f_name entry \<noteq> ''meta.json'' \<and> f_name entry \<noteq> ''.DS_Store''
              \<and> getBlockNameFromPath (f_path entry) = Some b
              \<and> curriculum (name (superBlockInfoFromPath (f_path entry))) = Some sb
              \<and> blocks sb b = None
              \<and> b \<in> set objectPrototypeKeys"
  then have "buildCurriculum env entry curriculum lang
      = (case createChallenge env (challengesDir env) lang (f_path entry) None of
           Inl e \<Rightarrow> Inl e
         | Inr challenge \<Rightarrow> Inl TypeError)"
    using inherited_leaf_fails [of entry b curriculum sb env lang] by blast
  then show "\<exists>e. buildCurriculum env entry curriculum lang = Inl e"
    by (simp split: sum.split)
next
  fix files and curriculum curriculum' :: "('r, 'q, 'x) curriculum"
  assume a: "list_all walked files \<and> noBlock b curriculum
              \<and> buildAll env lang files curriculum = Inr curriculum'"
  with buildAll_without_block [OF loaded upcoming unset, of files curriculum lang curriculum']
  show "noBlock b curriculum'" by blast
next
  fix files and curriculum curriculum' :: "('r, 'q, 'x) curriculum"
  assume a: "list_all walked files \<and> noBlock b curriculum
              \<and> buildAll env lang files curriculum = Inr curriculum'"
  with buildAll_without_block [OF loaded upcoming unset, of files curriculum lang curriculum']
  show "buildAll env lang
          (filter (\<lambda>file. getBlockNameFromPath (f_path file) \<noteq> Some b) files) curriculum
        = Inr curriculum'" by blast
qed

theorem upcoming_block_not_in_curriculum_witness:
  "requireMeta exampleEnv (blockMetaPath exampleEnv (Some ''upcoming'')) = Inr upcomingMeta
   \<and> m_isUpcomingChange upcomingMeta = JBool True
   \<and> SHOW_UPCOMING_CHANGES exampleEnv = None
   \<and> ''upcoming'' \<notin> set objectPrototypeKeys
   \<and> buildCurriculum exampleEnv upcomingDir htmlCurriculum ''english'' = Inr htmlCurriculum
   \<and> buildCurriculum exampleEnv upcomingLeaf htmlCurriculum ''english'' = Inr htmlCurriculum
   \<and> list_all walked [htmlDir, upcomingDir, upcomingLeaf]
   \<and> noBlock ''upcoming'' emptyCurriculum
   \<and> buildAll exampleEnv ''english'' [htmlDir, upcomingDir, upcomingLeaf] emptyCurriculum
       = Inr htmlCurriculum
   \<and> noBlock ''upcoming'' htmlCurriculum
   \<and> buildAll exampleEnv ''english'' [htmlDir] emptyCurriculum = Inr htmlCurriculum
   \<and> requireMeta exampleEnv (blockMetaPath exampleEnv (Some ''constructor'')) = Inr constructorMeta
   \<and> m_isUpcomingChange constructorMeta = JBool True
   \<and> ''constructor'' \<in> set objectPrototypeKeys
   \<and> buildCurriculum exampleEnv constructorDir htmlCurriculum ''english'' = Inr htmlCurriculum
   \<and> buildCurriculum exampleEnv constructorLeaf htmlCurriculum ''english'' = Inl TypeError
   \<and> buildAll exampleEnv ''english'' [htmlDir, constructorDir, constructorLeaf] emptyCurriculum
       = Inl TypeError"
proof -
  have l: "requireMeta exampleEnv (blockMetaPath exampleEnv (Some ''upcoming'')) = Inr upcomingMeta"
    unfolding example_meta_paths by (rule example_required_meta)
  have u: "m_isUpcomingChange upcomingMeta = JBool True"
    by (simp add: upcomingMeta_def)
  have n: "SHOW_UPCOMING_CHANGES exampleEnv = None"
    by (simp add: exampleEnv_def)
  have k: "''upcoming'' \<notin> set objectPrototypeKeys"
    by (simp add: objectPrototypeKeys_def)
  note t = upcoming_block_not_in_curriculum [OF l u n, of "''english''"]
  have d: "f_depth upcomingDir = 2 \<and> f_isDirectory upcomingDir
      \<and> getBlockNameFromPath (f_path upcomingDir) = Some ''upcoming''"
    by (simp add: upcomingDir_def example_blocks)
  with t have r1: "buildCurriculum exampleEnv upcomingDir htmlCurriculum ''english''
      = Inr htmlCurriculum"
    by blast
  have f: "\<not> f_isDirectory upcomingLeaf \<and> f_name upcomingLeaf \<noteq> ''meta.json''
      \<and> f_name upcomingLeaf \<noteq> ''.DS_Store''
      \<and> getBlockNameFromPath (f_path upcomingLeaf) = Some ''upcoming''
      \<and> htmlCurriculum (name (superBlockInfoFromPath (f_path upcomingLeaf)))
          = Some \<lparr>superBlock = ''html'', sb_order = Finite 1, blocks = Map.empty\<rparr>
      \<and> blocks \<lparr>superBlock = ''html'', sb_order = Finite 1, blocks = Map.empty\<rparr> ''upcoming''
          = None
      \<and> ''upcoming'' \<notin> set objectPrototypeKeys"
    using k by (simp add: upcomingLeaf_def example_blocks example_superblock htmlCurriculum_def)
  with t have r2: "buildCurriculum exampleEnv upcomingLeaf htmlCurriculum ''english''
      = Inr htmlCurriculum"
    by blast
  have e: "noBlock ''upcoming'' emptyCurriculum"
    by (simp add: noBlock_def emptyCurriculum_def)
  have a: "buildAll exampleEnv ''english'' [htmlDir, upcomingDir, upcomingLeaf] emptyCurriculum
      = Inr htmlCurriculum"
    by (simp add: example_html_step r1 r2)
  from t example_walked(1) e a
  have "noBlock ''upcoming'' htmlCurriculum
      \<and> buildAll exampleEnv ''english''
          (filter (\<lambda>file. getBlockNameFromPath (f_path file) \<noteq> Some ''upcoming'')
             [htmlDir, upcomingDir, upcomingLeaf]) emptyCurriculum
        = Inr htmlCurriculum"
    by blast
  moreover have "filter (\<lambda>file. getBlockNameFromPath (f_path file) \<noteq> Some ''upcoming'')
             [htmlDir, upcomingDir, upcomingLeaf] = [htmlDir]"
    by (simp add: htmlDir_def upcomingDir_def upcomingLeaf_def example_blocks)
  ultimately have b: "noBlock ''upcoming'' htmlCurriculum
      \<and> buildAll exampleEnv ''english'' [htmlDir] emptyCurriculum = Inr htmlCurriculum"
    by simp
  have l': "requireMeta exampleEnv (blockMetaPath exampleEnv (Some ''constructor''))
      = Inr constructorMeta"
    by (simp add: example_constructor_block)
  have u': "m_isUpcomingChange constructorMeta = JBool True"
    by (simp add: constructorMeta_def)
  have k': "''constructor'' \<in> set objectPrototypeKeys"
    by (simp add: objectPrototypeKeys_def)
  note t' = upcoming_block_not_in_curriculum [OF l' u' n, of "''english''"]
  have d': "f_depth constructorDir = 2 \<and> f_isDirectory constructorDir
      \<and> getBlockNameFromPath (f_path constructorDir) = Some ''constructor''"
    by (simp add: constructorDir_def example_constructor_block)
  with t' have r1': "buildCurriculum exampleEnv constructorDir htmlCurriculum ''english''
      = Inr htmlCurriculum"
    by blast
  have f': "\<not> f_isDirectory constructorLeaf \<and> f_name constructorLeaf \<noteq> ''meta.json''
      \<and> f_name constructorLeaf \<noteq> ''.DS_Store''
      \<and> getBlockNameFromPath (f_path constructorLeaf) = Some ''constructor''
      \<and> htmlCurriculum (name (superBlockInfoFromPath (f_path constructorLeaf)))
          = Some \<lparr>superBlock = ''html'', sb_order = Finite 1, blocks = Map.empty\<rparr>
      \<and> blocks \<lparr>superBlock = ''html'', sb_order = Finite 1, blocks = Map.empty\<rparr> ''constructor''
          = None
      \<and> ''constructor'' \<in> set objectPrototypeKeys"
    using k' by (simp add: constructorLeaf_def example_constructor_block example_superblock
        htmlCurriculum_def)
  with t' have "buildCurriculum exampleEnv constructorLeaf htmlCurriculum ''english''
      = (case createChallenge exampleEnv (challengesDir exampleEnv) ''english''
                (f_path constructorLeaf) None of
           Inl e \<Rightarrow> Inl e
         | Inr challenge \<Rightarrow> Inl TypeError)"
    by blast
  moreover have "f_path constructorLeaf = ''01-html/constructor/soon.md''"
    by (simp add: constructorLeaf_def)
  ultimately have r2': "buildCurriculum exampleEnv constructorLeaf htmlCurriculum ''english''
      = Inl TypeError"
    using example_constructor_created by auto
  have a': "buildAll exampleEnv ''english'' [htmlDir, constructorDir, constructorLeaf]
      emptyCurriculum = Inl TypeError"
    by (simp add: example_html_step r1' r2')
  from l u n k r1 r2 example_walked(1) e a b l' u' k' r1' r2' a' show ?thesis
    by blast
qed

section \<open>Completeness of the comment dictionary\<close>

lemma foldl_update_map_of:
  "map_of (foldl (\<lambda>acc x. AList.update (kf x) (h (kf x)) acc) al xs) k
     = (if k \<in> kf ` set xs then Some (h k) else map_of al k)"
  by (induction xs arbitrary: al) (auto simp: update_conv')

lemma foldl_update_keys:
  "fst ` set (foldl (\<lambda>acc x. AList.update (kf x) (h (kf x)) acc) al xs)
     = fst ` set al \<union> kf ` set xs"
  by (induction xs arbitrary: al) (auto simp: dom_update)

lemma foldl_update_distinct:
  "distinct (map fst al)
     \<Longrightarrow> distinct (map fst (foldl (\<lambda>acc x. AList.update (kf x) (h (kf x)) acc) al xs))"
  by (induction xs arbitrary: al) (auto simp: distinct_update)

lemma spread_map_of:
  "distinct (map fst bl)
     \<Longrightarrow> map_of (foldl (\<lambda>acc (k, v). AList.update k v acc) al bl) = map_of al ++ map_of bl"
proof (induction bl arbitrary: al)
  case Nil
  then show ?case by simp
next
  case (Cons p bl)
  obtain k v where p: "p = (k, v)" by (cases p)
  from Cons.prems p have d: "distinct (map fst bl)" and n: "k \<notin> fst ` set bl"
    by auto
  from n have "map_of bl k = None"
    by (simp add: map_of_eq_None_iff)
  then have e: "(map_of al)(k \<mapsto> v) ++ map_of bl = map_of al ++ map_of ((k, v) # bl)"
    by (auto simp: map_add_def fun_eq_iff split: option.splits)
  have "map_of (foldl (\<lambda>acc (k, v). AList.update k v acc) al (p # bl))
      = map_of (foldl (\<lambda>acc (k, v). AList.update k v acc) (AList.update k v al) bl)"
    by (simp add: p)
  also have "\<dots> = map_of (AList.update k v al) ++ map_of bl"
    by (rule Cons.IH [OF d])
  also have "\<dots> = (map_of al)(k \<mapsto> v) ++ map_of bl"
    by (simp only: update_conv')
  also have "\<dots> = map_of al ++ map_of (p # bl)"
    unfolding p by (rule e)
  finally show ?case .
qed

lemma dictionaries_map_of:
  "map_of (dictionaries d) lang
     = (if lang \<in> set (languages d) then Some (requireComments d lang) else None)"
  unfolding dictionaries_def
  using foldl_update_map_of [of "\<lambda>x. x" "requireComments d" "[]" "languages d" lang]
  by simp

lemma dictionaries_keys: "set (map fst (dictionaries d)) = set (languages d)"
  unfolding dictionaries_def
  using foldl_update_keys [of "\<lambda>x. x" "requireComments d" "[]" "languages d"]
  by simp

lemma translationEntries_Inr:
  "translationEntries dicts engId t acc langs = Inr r
     \<Longrightarrow> \<forall>lang \<in> set langs. \<exists>dict. map_of dicts lang = Some dict \<and> (\<exists>e \<in> set dict. e_id e = engId)"
proof (induction langs arbitrary: acc)
  case Nil
  then show ?case by simp
next
  case (Cons lang langs)
  from Cons.prems obtain dict entry where
    m: "map_of dicts lang = Some dict"
    and f: "find (\<lambda>e. engId = e_id e) dict = Some entry"
    and r: "translationEntries dicts engId t (AList.update lang (e_text entry) acc) langs = Inr r"
    by (auto split: option.splits)
  from f have "\<exists>e \<in> set dict. e_id e = engId"
    by (auto simp: find_Some_iff)
  with m Cons.IH [OF r] show ?case
    by simp
qed

lemma translationEntries_Inl:
  "translationEntries dicts engId t acc langs = Inl err
     \<Longrightarrow> \<forall>lang \<in> set langs. map_of dicts lang \<noteq> None
     \<Longrightarrow> err = Error (missingTranslationMessage t engId)
         \<and> (\<exists>lang \<in> set langs. \<exists>dict. map_of dicts lang = Some dict
               \<and> \<not> (\<exists>e \<in> set dict. e_id e = engId))"
proof (induction langs arbitrary: acc)
  case Nil
  then show ?case by simp
next
  case (Cons lang langs)
  from Cons.prems(2) obtain dict where m: "map_of dicts lang = Some dict"
    by auto
  show ?case
  proof (cases "find (\<lambda>e. engId = e_id e) dict")
    case None
    then have "\<not> (\<exists>e \<in> set dict. e_id e = engId)"
      by (auto simp: find_None_iff)
    with Cons.prems(1) m None show ?thesis
      by auto
  next
    case (Some entry)
    with Cons.prems(1) m have
      "translationEntries dicts engId t (AList.update lang (e_text entry) acc) langs = Inl err"
      by simp
    from Cons.IH [OF this] Cons.prems(2) show ?thesis
      by auto
  qed
qed

lemma translationEntries_missing:
  "\<forall>lang \<in> set langs. map_of dicts lang \<noteq> None
     \<Longrightarrow> \<exists>lang \<in> set langs. \<forall>dict. map_of dicts lang = Some dict
            \<longrightarrow> \<not> (\<exists>e \<in> set dict. e_id e = engId)
     \<Longrightarrow> translationEntries dicts engId t acc langs = Inl (Error (missingTranslationMessage t engId))"
proof -
  assume a: "\<forall>lang \<in> set langs. map_of dicts lang \<noteq> None"
    and b: "\<exists>lang \<in> set langs. \<forall>dict. map_of dicts lang = Some dict
            \<longrightarrow> \<not> (\<exists>e \<in> set dict. e_id e = engId)"
  show ?thesis
  proof (cases "translationEntries dicts engId t acc langs")
    case (Inl err)
    with translationEntries_Inl [OF Inl a] show ?thesis by simp
  next
    case (Inr r)
    from translationEntries_Inr [OF Inr] b show ?thesis by blast
  qed
qed

lemma translatedComments_Inr:
  "translatedComments dicts acc cs = Inr m
     \<Longrightarrow> \<forall>c \<in> set cs. \<exists>entry. getTranslationEntry dicts (e_id c) (e_text c) = Inr entry"
proof (induction cs arbitrary: acc)
  case Nil
  then show ?case by simp
next
  case (Cons c cs)
  from Cons.prems obtain entry where
    e: "getTranslationEntry dicts (e_id c) (e_text c) = Inr entry"
    and r: "translatedComments dicts (AList.update (e_text c) entry acc) cs = Inr m"
    by (auto split: sum.splits)
  with Cons.IH [OF r] show ?case
    by simp
qed

lemma translatedComments_Inl:
  "translatedComments dicts acc cs = Inl err
     \<Longrightarrow> \<exists>c \<in> set cs. getTranslationEntry dicts (e_id c) (e_text c) = Inl err"
proof (induction cs arbitrary: acc)
  case Nil
  then show ?case by simp
next
  case (Cons c cs)
  show ?case
  proof (cases "getTranslationEntry dicts (e_id c) (e_text c)")
    case (Inl e)
    with Cons.prems show ?thesis by simp
  next
    case (Inr entry)
    with Cons.prems have
      "translatedComments dicts (AList.update (e_text c) entry acc) cs = Inl err"
      by simp
    from Cons.IH [OF this] show ?thesis by simp
  qed
qed

lemma missingTranslationMessage_mentions:
  "mentions (missingTranslationMessage t engId) t"
  "mentions (missingTranslationMessage t engId) engId"
proof -
  show "mentions (missingTranslationMessage t engId) t"
    unfolding missingTranslationMessage_def
    using mentions_middle [of "''Missing translation for comment'' @ newline @ quote" t
        "quote @ newline @ ''        with id of '' @ engId"]
    by simp
  show "mentions (missingTranslationMessage t engId) engId"
    unfolding missingTranslationMessage_def
    using mentions_middle [of "''Missing translation for comment'' @ newline @ quote @ t
        @ quote @ newline @ ''        with id of ''" engId "[]"]
    by simp
qed

lemma untranslatable_entry:
  "map_of (foldl (\<lambda>acc lang. AList.update lang t acc) [] langs) lang
     = (if lang \<in> set langs then Some t else None)"
  using foldl_update_map_of [of "\<lambda>x. x" "\<lambda>x. t" "[]" langs lang]
  by simp

lemma untranslatableCommentMap_map_of:
  "map_of (untranslatableCommentMap d) k
     = (if k \<in> e_text ` set (COMMENTS_TO_NOT_TRANSLATE d)
        then Some (foldl (\<lambda>acc lang. AList.update lang k acc) [] (languages d)) else None)"
  unfolding untranslatableCommentMap_def
  using foldl_update_map_of [of e_text
      "\<lambda>k. foldl (\<lambda>acc lang. AList.update lang k acc) [] (languages d)" "[]"
      "COMMENTS_TO_NOT_TRANSLATE d" k]
  by simp

lemma untranslatableCommentMap_distinct: "distinct (map fst (untranslatableCommentMap d))"
  unfolding untranslatableCommentMap_def
  using foldl_update_distinct [of "[]" e_text
      "\<lambda>k. foldl (\<lambda>acc lang. AList.update lang k acc) [] (languages d)"
      "COMMENTS_TO_NOT_TRANSLATE d"]
  by simp


lemma getTranslationEntry_missing:
  assumes "lang \<in> set (languages d)"
      and "\<not> (\<exists>e \<in> set (requireComments d lang). e_id e = engId)"
  shows "getTranslationEntry (dictionaries d) engId t
           = Inl (Error (missingTranslationMessage t engId))"
  unfolding getTranslationEntry_def
proof (rule translationEntries_missing)
  show "\<forall>lang \<in> set (map fst (dictionaries d)). map_of (dictionaries d) lang \<noteq> None"
    unfolding dictionaries_keys by (simp add: dictionaries_map_of)
  show "\<exists>lang \<in> set (map fst (dictionaries d)). \<forall>dict. map_of (dictionaries d) lang = Some dict
          \<longrightarrow> \<not> (\<exists>e \<in> set dict. e_id e = engId)"
    unfolding dictionaries_keys using assms
    by (intro bexI [of _ lang]) (simp_all add: dictionaries_map_of)
qed

lemma getTranslationEntry_Inr:
  assumes "getTranslationEntry (dictionaries d) engId t = Inr entry"
      and "lang \<in> set (languages d)"
  shows "\<exists>e \<in> set (requireComments d lang). e_id e = engId"
proof -
  from assms(2) have "lang \<in> set (map fst (dictionaries d))"
    unfolding dictionaries_keys .
  with translationEntries_Inr [OF assms(1) [unfolded getTranslationEntry_def]]
  obtain dict where "map_of (dictionaries d) lang = Some dict" "\<exists>e \<in> set dict. e_id e = engId"
    by blast
  with assms(2) show ?thesis
    by (simp add: dictionaries_map_of)
qed

lemma getTranslationEntry_Inl:
  assumes "getTranslationEntry (dictionaries d) engId t = Inl err"
  shows "err = Error (missingTranslationMessage t engId)
         \<and> (\<exists>lang \<in> set (languages d). \<not> (\<exists>e \<in> set (requireComments d lang). e_id e = engId))"
proof -
  have a: "\<forall>lang \<in> set (map fst (dictionaries d)). map_of (dictionaries d) lang \<noteq> None"
    unfolding dictionaries_keys by (simp add: dictionaries_map_of)
  from translationEntries_Inl [OF assms [unfolded getTranslationEntry_def] a]
  obtain lang dict where e: "err = Error (missingTranslationMessage t engId)"
    and l: "lang \<in> set (map fst (dictionaries d))"
    and m: "map_of (dictionaries d) lang = Some dict"
    and n: "\<not> (\<exists>e \<in> set dict. e_id e = engId)"
    by blast
  from l have l': "lang \<in> set (languages d)"
    unfolding dictionaries_keys .
  with m have "dict = requireComments d lang"
    by (simp add: dictionaries_map_of)
  with e l' n show ?thesis
    by blast
qed

lemma createCommentMap_Inr:
  assumes "createCommentMap d = Inr m"
  shows "\<exists>translated. translatedComments (dictionaries d) [] (COMMENTS_TO_TRANSLATE d) = Inr translated
           \<and> m = foldl (\<lambda>acc (k, v). AList.update k v acc) translated (untranslatableCommentMap d)"
  using assms unfolding createCommentMap_def by (auto split: sum.splits)

lemma example_languages:
  "languages exampleDictionaries = [''chinese'', ''espanol'']"
  "languages incompleteDictionaries = [''chinese'', ''espanol'']"
  by (simp_all add: languages_def exampleDictionaries_def incompleteDictionaries_def)

lemma example_comment_map:
  "createCommentMap exampleDictionaries
     = Inr [(''// hello'', [(''chinese'', ''// nihao''), (''espanol'', ''// hola'')]),
            (''// jQuery'', [(''chinese'', ''// jQuery''), (''espanol'', ''// jQuery'')])]"
proof -
  have d: "dictionaries exampleDictionaries
      = [(''chinese'', [\<lparr>e_id = ''c1'', e_text = ''// nihao''\<rparr>]),
         (''espanol'', [\<lparr>e_id = ''c1'', e_text = ''// hola''\<rparr>])]"
    unfolding dictionaries_def example_languages by (simp add: exampleDictionaries_def)
  have u: "untranslatableCommentMap exampleDictionaries
      = [(''// jQuery'', [(''chinese'', ''// jQuery''), (''espanol'', ''// jQuery'')])]"
    unfolding untranslatableCommentMap_def example_languages
    by (simp add: exampleDictionaries_def)
  have t: "translatedComments (dictionaries exampleDictionaries) []
        (COMMENTS_TO_TRANSLATE exampleDictionaries)
      = Inr [(''// hello'', [(''chinese'', ''// nihao''), (''espanol'', ''// hola'')])]"
    unfolding d by (simp add: exampleDictionaries_def getTranslationEntry_def)
  show ?thesis
    unfolding createCommentMap_def t u by simp
qed

text \<open>
  Claim C5. \<^verbatim>\<open>createCommentMap\<close> returns a map only if every comment of
  \<^verbatim>\<open>COMMENTS_TO_TRANSLATE\<close> has, in the dictionary of every language, an entry with its
  id, and it does return one when they all have. If some comment lacks such an entry in
  some language, it throws the error whose message names the text and the id of a
  comment that lacks one. In the map returned, every comment of
  \<^verbatim>\<open>COMMENTS_TO_NOT_TRANSLATE\<close> maps, for every language, to its own text.
\<close>

theorem comment_map_requires_translations:
  "(\<forall>m. createCommentMap d = Inr m
       \<longrightarrow> (\<forall>c \<in> set (COMMENTS_TO_TRANSLATE d). \<forall>lang \<in> set (languages d).
              \<exists>e \<in> set (requireComments d lang). e_id e = e_id c))
   \<and> ((\<exists>c \<in> set (COMMENTS_TO_TRANSLATE d). \<exists>lang \<in> set (languages d).
          \<not> (\<exists>e \<in> set (requireComments d lang). e_id e = e_id c))
       \<longrightarrow> (\<exists>c \<in> set (COMMENTS_TO_TRANSLATE d).
              (\<exists>lang \<in> set (languages d).
                 \<not> (\<exists>e \<in> set (requireComments d lang). e_id e = e_id c))
              \<and> createCommentMap d = Inl (Error (missingTranslationMessage (e_text c) (e_id c)))
              \<and> mentions (missingTranslationMessage (e_text c) (e_id c)) (e_text c)
              \<and> mentions (missingTranslationMessage (e_text c) (e_id c)) (e_id c)))
   \<and> ((\<forall>c \<in> set (COMMENTS_TO_TRANSLATE d). \<forall>lang \<in> set (languages d).
          \<exists>e \<in> set (requireComments d lang). e_id e = e_id c)
       \<longrightarrow> (\<exists>m. createCommentMap d = Inr m))
   \<and> (\<forall>m. createCommentMap d = Inr m
       \<longrightarrow> (\<forall>c \<in> set (COMMENTS_TO_NOT_TRANSLATE d). \<forall>lang \<in> set (languages d).
              \<exists>entry. map_of m (e_text c) = Some entry \<and> map_of entry lang = Some (e_text c)))"
proof (intro conjI allI impI ballI)
  fix m c lang
  assume m: "createCommentMap d = Inr m"
    and c: "c \<in> set (COMMENTS_TO_TRANSLATE d)" and l: "lang \<in> set (languages d)"
  from createCommentMap_Inr [OF m] obtain translated where
    "translatedComments (dictionaries d) [] (COMMENTS_TO_TRANSLATE d) = Inr translated"
    by blast
  from translatedComments_Inr [OF this] c obtain entry where
    "getTranslationEntry (dictionaries d) (e_id c) (e_text c) = Inr entry"
    by blast
  from getTranslationEntry_Inr [OF this l]
  show "\<exists>e \<in> set (requireComments d lang). e_id e = e_id c" .
next
  assume "\<exists>c \<in> set (COMMENTS_TO_TRANSLATE d). \<exists>lang \<in> set (languages d).
          \<not> (\<exists>e \<in> set (requireComments d lang). e_id e = e_id c)"
  then obtain c0 lang0 where c0: "c0 \<in> set (COMMENTS_TO_TRANSLATE d)"
    and l0: "lang0 \<in> set (languages d)"
    and n0: "\<not> (\<exists>e \<in> set (requireComments d lang0). e_id e = e_id c0)"
    by blast
  have f0: "getTranslationEntry (dictionaries d) (e_id c0) (e_text c0)
      = Inl (Error (missingTranslationMessage (e_text c0) (e_id c0)))"
    by (rule getTranslationEntry_missing [OF l0 n0])
  obtain err where t: "translatedComments (dictionaries d) [] (COMMENTS_TO_TRANSLATE d) = Inl err"
  proof (cases "translatedComments (dictionaries d) [] (COMMENTS_TO_TRANSLATE d)")
    case (Inl err)
    then show ?thesis by (rule that)
  next
    case (Inr translated)
    from translatedComments_Inr [OF Inr] c0 f0 show ?thesis by auto
  qed
  from translatedComments_Inl [OF t] obtain c where c: "c \<in> set (COMMENTS_TO_TRANSLATE d)"
    and g: "getTranslationEntry (dictionaries d) (e_id c) (e_text c) = Inl err"
    by blast
  from getTranslationEntry_Inl [OF g] have
    e: "err = Error (missingTranslationMessage (e_text c) (e_id c))"
    and n: "\<exists>lang \<in> set (languages d). \<not> (\<exists>e \<in> set (requireComments d lang). e_id e = e_id c)"
    by simp_all
  from t e have "createCommentMap d = Inl (Error (missingTranslationMessage (e_text c) (e_id c)))"
    unfolding createCommentMap_def by simp
  with c n show "\<exists>c \<in> set (COMMENTS_TO_TRANSLATE d).
              (\<exists>lang \<in> set (languages d).
                 \<not> (\<exists>e \<in> set (requireComments d lang). e_id e = e_id c))
              \<and> createCommentMap d = Inl (Error (missingTranslationMessage (e_text c) (e_id c)))
              \<and> mentions (missingTranslationMessage (e_text c) (e_id c)) (e_text c)
              \<and> mentions (missingTranslationMessage (e_text c) (e_id c)) (e_id c)"
    using missingTranslationMessage_mentions by blast
next
  assume a: "\<forall>c \<in> set (COMMENTS_TO_TRANSLATE d). \<forall>lang \<in> set (languages d).
          \<exists>e \<in> set (requireComments d lang). e_id e = e_id c"
  show "\<exists>m. createCommentMap d = Inr m"
  proof (cases "translatedComments (dictionaries d) [] (COMMENTS_TO_TRANSLATE d)")
    case (Inl err)
    from translatedComments_Inl [OF Inl] obtain c where c: "c \<in> set (COMMENTS_TO_TRANSLATE d)"
      and g: "getTranslationEntry (dictionaries d) (e_id c) (e_text c) = Inl err"
      by blast
    from getTranslationEntry_Inl [OF g] a c show ?thesis
      by blast
  next
    case (Inr translated)
    then show ?thesis
      unfolding createCommentMap_def by simp
  qed
next
  fix m c lang
  assume m: "createCommentMap d = Inr m"
    and c: "c \<in> set (COMMENTS_TO_NOT_TRANSLATE d)" and l: "lang \<in> set (languages d)"
  from createCommentMap_Inr [OF m] obtain translated where
    "m = foldl (\<lambda>acc (k, v). AList.update k v acc) translated (untranslatableCommentMap d)"
    by blast
  then have "map_of m = map_of translated ++ map_of (untranslatableCommentMap d)"
    by (simp add: spread_map_of [OF untranslatableCommentMap_distinct])
  with c have "map_of m (e_text c)
      = Some (foldl (\<lambda>acc lang. AList.update lang (e_text c) acc) [] (languages d))"
    by (simp add: untranslatableCommentMap_map_of map_add_def)
  with l show "\<exists>entry. map_of m (e_text c) = Some entry \<and> map_of entry lang = Some (e_text c)"
    by (simp add: untranslatable_entry)
qed

theorem comment_map_requires_translations_witness:
  "createCommentMap exampleDictionaries
     = Inr [(''// hello'', [(''chinese'', ''// nihao''), (''espanol'', ''// hola'')]),
            (''// jQuery'', [(''chinese'', ''// jQuery''), (''espanol'', ''// jQuery'')])]
   \<and> list_all (\<lambda>c. list_all (\<lambda>lang.
         list_ex (\<lambda>e. e_id e = e_id c) (requireComments exampleDictionaries lang))
           (languages exampleDictionaries)) (COMMENTS_TO_TRANSLATE exampleDictionaries)
   \<and> list_ex (\<lambda>c. list_ex (\<lambda>lang.
         \<not> list_ex (\<lambda>e. e_id e = e_id c) (requireComments incompleteDictionaries lang))
           (languages incompleteDictionaries)) (COMMENTS_TO_TRANSLATE incompleteDictionaries)
   \<and> createCommentMap incompleteDictionaries
     = Inl (Error (missingTranslationMessage ''// hello'' ''c1''))"
proof -
  have a: "\<forall>c \<in> set (COMMENTS_TO_TRANSLATE exampleDictionaries).
      \<forall>lang \<in> set (languages exampleDictionaries).
        \<exists>e \<in> set (requireComments exampleDictionaries lang). e_id e = e_id c"
    using comment_map_requires_translations [of exampleDictionaries] example_comment_map
    by blast
  have b: "\<exists>c \<in> set (COMMENTS_TO_TRANSLATE incompleteDictionaries).
      \<exists>lang \<in> set (languages incompleteDictionaries).
        \<not> (\<exists>e \<in> set (requireComments incompleteDictionaries lang). e_id e = e_id c)"
    unfolding example_languages
    by (simp add: incompleteDictionaries_def exampleDictionaries_def)
  with comment_map_requires_translations [of incompleteDictionaries]
  have "\<exists>c \<in> set (COMMENTS_TO_TRANSLATE incompleteDictionaries).
      createCommentMap incompleteDictionaries
        = Inl (Error (missingTranslationMessage (e_text c) (e_id c)))"
    by blast
  then have c: "createCommentMap incompleteDictionaries
      = Inl (Error (missingTranslationMessage ''// hello'' ''c1''))"
    by (simp add: incompleteDictionaries_def exampleDictionaries_def)
  from a b c example_comment_map show ?thesis
    by (simp add: list_all_iff list_ex_iff)
qed

end
